theory Spec2Isabelle
  imports Complex_Main "HOL-Library.Multiset" "HOL-Library.Log_Nat"
begin

section \<open>Shared types (packages/shared/src/types)\<close>

text \<open>
  JavaScript numbers are modelled as follows: die faces, hand values and roll sums are
  \<open>int\<close>; counters, indices and placements are \<open>nat\<close>. Scores and points, which the
  scorer may make fractional, are doubles: they are modelled by their values, which are
  rationals (\<open>rat\<close>), and every addition and division of scores rounds its result to a
  double (\<open>js_add\<close>, \<open>js_div\<close> below). Strings are \<open>string\<close>.
\<close>

datatype DieColor = WHITE | RED | BLUE

record Die =
  die_id :: string
  die_color :: DieColor
  die_value :: int
  isSpent :: bool
  isRevealed :: bool

datatype PredictionType = ZERO | MIN' | MORE | MAX'

datatype HandRank = SINGLE | DOUBLE | STRAIGHT | TRIPLE

text \<open>The numeric values of the enum \<open>HandRank\<close>.\<close>

fun rank_num :: "HandRank \<Rightarrow> int" where
  "rank_num SINGLE = 1"
| "rank_num DOUBLE = 2"
| "rank_num STRAIGHT = 3"
| "rank_num TRIPLE = 4"

record EvaluatedHand =
  rank :: HandRank
  primaryValue :: int
  secondaryValue :: int
  tertiaryValue :: int
  description :: string

record SetResult =
  sr_playerId :: string
  sr_hand :: EvaluatedHand
  sr_diceUsed :: "string list"
  sr_diceValues :: "Die list"
  placement :: nat
  pointsEarned :: rat

datatype GamePhase =
  LOBBY | INITIAL_ROLL | PREDICTION | SET_SELECTION | SET_REVEAL | ROUND_SUMMARY | GAME_OVER

record GameConfig =
  maxPlayers :: nat
  totalRounds :: nat
  turnTimerSeconds :: nat

record PredictionOutcome =
  po_playerId :: string
  po_type :: PredictionType
  correct :: bool
  bonus :: rat

record RoundResult =
  roundNumber :: nat
  set1Results :: "SetResult list"
  set2Results :: "SetResult list"
  predictions :: "PredictionOutcome list"

record Player =
  player_id :: string
  player_name :: string
  socketId :: string
  dice :: "Die list"
  cumulativeScore :: rat
  currentRoundScore :: rat
  set1Score :: rat
  set2Score :: rat
  prediction :: "PredictionType option"
  isConnected :: bool
  isReady :: bool
  isHost :: bool

record RollResult =
  rr_playerId :: string
  roll :: int

record GameState =
  roomCode :: string
  phase :: GamePhase
  players :: "Player list"
  config :: GameConfig
  currentRound :: nat
  currentSet :: nat
  turnOrder :: "string list"
  currentTurnIndex :: nat
  pendingSelections :: "string \<rightharpoonup> string list"
  setResults :: "SetResult list"
  roundHistory :: "RoundResult list"
  initialRollResults :: "RollResult list"
  hostId :: string
  createdAt :: nat

section \<open>The JavaScript runtime\<close>

text \<open>
  \<open>Array.prototype.sort(comparefn)\<close> only looks at the sign of what the comparator
  returns, and takes \<open>NaN\<close> for zero. It is stable. For a comparator that is a total
  preorder, as all comparators of this program are, the result is the one a stable
  insertion sort computes: an element goes in front of the first element that the
  comparator does not put before it.
\<close>

datatype ordering = LT | EQ | GT

definition sign_int :: "int \<Rightarrow> ordering" where
  "sign_int v = (if v < 0 then LT else if v = 0 then EQ else GT)"

definition sign_rat :: "rat \<Rightarrow> ordering" where
  "sign_rat v = (if v < 0 then LT else if v = 0 then EQ else GT)"

fun insort_js :: "('a \<Rightarrow> 'a \<Rightarrow> ordering) \<Rightarrow> 'a \<Rightarrow> 'a list \<Rightarrow> 'a list" where
  "insort_js cmp x [] = [x]"
| "insort_js cmp x (y # ys) =
     (if cmp x y = GT then y # insort_js cmp x ys else x # y # ys)"

definition js_sort :: "('a \<Rightarrow> 'a \<Rightarrow> ordering) \<Rightarrow> 'a list \<Rightarrow> 'a list" where
  "js_sort cmp xs = foldr (insort_js cmp) xs []"

text \<open>A number in a template literal: the decimal digits of an integer.\<close>

fun digits10 :: "nat \<Rightarrow> string" where
  "digits10 n =
     (if n < 10 then [''0123456789'' ! n]
      else digits10 (n div 10) @ [''0123456789'' ! (n mod 10)])"

definition js_string_of_int :: "int \<Rightarrow> string" where
  "js_string_of_int v = (if v < 0 then ''-'' @ digits10 (nat (- v)) else digits10 (nat v))"

text \<open>
  Arithmetic on doubles (IEEE 754 binary64, the only number type of JavaScript): the exact
  result is rounded to the nearest double, and of two nearest doubles to the one with an
  even significand. \<open>binade x\<close> is the exponent \<open>e\<close> with \<open>2^e \<le> x < 2^(e+1)\<close>; the doubles
  of a binade are the multiples of its \<open>quantum\<close>, \<open>2^(e-52)\<close> (a significand has 53 bits);
  below \<open>2^-1022\<close> the doubles are subnormal and keep the quantum \<open>2^-1074\<close>. A result of
  magnitude \<open>2^1024\<close> or more is \<open>Infinity\<close> in JavaScript, a value the model does not have:
  the scores of a game are far below it (a round adds at most 52 points). The divisor of
  the one division of the program is the size of a tie-group, which is not zero.
\<close>

definition round_half_even :: "rat \<Rightarrow> int" where
  "round_half_even y =
     (let f = \<lfloor>y\<rfloor>; d = y - of_int f
      in if d < 1 / 2 then f else if 1 / 2 < d then f + 1 else if even f then f else f + 1)"

definition binade :: "rat \<Rightarrow> int" where
  "binade x =
     (case quotient_of x of
        (a, b) \<Rightarrow> let d = bitlen a - bitlen b in if 2 powi d \<le> x then d else d - 1)"

definition expo :: "rat \<Rightarrow> int" where
  "expo x = max (binade \<bar>x\<bar>) (- 1022)"

definition quantum :: "rat \<Rightarrow> rat" where
  "quantum x = 2 powi (expo x - 52)"

definition js_double :: "rat \<Rightarrow> rat" where
  "js_double x =
     (if x = 0 then 0 else of_int (round_half_even (x / quantum x)) * quantum x)"

text \<open>The operators \<open>+\<close> and \<open>/\<close> on numbers.\<close>

definition js_add :: "rat \<Rightarrow> rat \<Rightarrow> rat" where
  "js_add a b = js_double (a + b)"

definition js_div :: "rat \<Rightarrow> rat \<Rightarrow> rat" where
  "js_div a b = js_double (a / b)"

section \<open>Hand evaluator (scoring/hand-evaluator.ts)\<close>

text \<open>\<open>evaluateHand\<close> throws on a hand that is not 3 dice: the error is the left summand.\<close>

definition evaluateHand :: "Die list \<Rightarrow> string + EvaluatedHand" where
  "evaluateHand ds =
     (if length ds \<noteq> 3 then Inl ''Hand must contain exactly 3 dice''
      else
        let values = js_sort (\<lambda>a b. sign_int (a - b)) (map die_value ds);
            low = values ! 0; mid = values ! 1; high = values ! 2
        in if low = mid \<and> mid = high then
             Inr \<lparr>rank = TRIPLE, primaryValue = high, secondaryValue = 0, tertiaryValue = 0,
                  description = ''Triple '' @ js_string_of_int high @ ''s''\<rparr>
           else if mid = low + 1 \<and> high = mid + 1 then
             Inr \<lparr>rank = STRAIGHT, primaryValue = high, secondaryValue = 0, tertiaryValue = 0,
                  description = ''Straight '' @ js_string_of_int low @ ''-'' @
                    js_string_of_int mid @ ''-'' @ js_string_of_int high\<rparr>
           else if low = mid then
             Inr \<lparr>rank = DOUBLE, primaryValue = low, secondaryValue = high, tertiaryValue = 0,
                  description = ''Pair of '' @ js_string_of_int low @ ''s, '' @
                    js_string_of_int high @ '' kicker''\<rparr>
           else if mid = high then
             Inr \<lparr>rank = DOUBLE, primaryValue = high, secondaryValue = low, tertiaryValue = 0,
                  description = ''Pair of '' @ js_string_of_int high @ ''s, '' @
                    js_string_of_int low @ '' kicker''\<rparr>
           else
             Inr \<lparr>rank = SINGLE, primaryValue = high, secondaryValue = mid, tertiaryValue = low,
                  description = ''High '' @ js_string_of_int high @ '', '' @
                    js_string_of_int mid @ '', '' @ js_string_of_int low\<rparr>)"

definition compareHands :: "EvaluatedHand \<Rightarrow> EvaluatedHand \<Rightarrow> int" where
  "compareHands a b =
     (if rank a \<noteq> rank b then rank_num (rank a) - rank_num (rank b)
      else if primaryValue a \<noteq> primaryValue b then primaryValue a - primaryValue b
      else if secondaryValue a \<noteq> secondaryValue b then secondaryValue a - secondaryValue b
      else tertiaryValue a - tertiaryValue b)"

section \<open>Scoring constants (shared/src/constants/scoring.constants.ts)\<close>

text \<open>
  \<open>PLACEMENT_POINTS_BY_PLAYER_COUNT\<close>: the table for a player count, \<open>None\<close> where the
  object has no such key; each table maps a placement to its points.
\<close>

definition PLACEMENT_POINTS_BY_PLAYER_COUNT :: "nat \<rightharpoonup> (nat \<rightharpoonup> rat)" where
  "PLACEMENT_POINTS_BY_PLAYER_COUNT =
     [2 \<mapsto> [1 \<mapsto> 6, 2 \<mapsto> 0],
      3 \<mapsto> [1 \<mapsto> 6, 2 \<mapsto> 3, 3 \<mapsto> 0],
      4 \<mapsto> [1 \<mapsto> 6, 2 \<mapsto> 3, 3 \<mapsto> 1, 4 \<mapsto> 0],
      5 \<mapsto> [1 \<mapsto> 6, 2 \<mapsto> 4, 3 \<mapsto> 2, 4 \<mapsto> 1, 5 \<mapsto> 0],
      6 \<mapsto> [1 \<mapsto> 6, 2 \<mapsto> 4, 3 \<mapsto> 3, 4 \<mapsto> 2, 5 \<mapsto> 1, 6 \<mapsto> 0]]"

definition getPlacementPoints :: "nat \<Rightarrow> nat \<Rightarrow> rat" where
  "getPlacementPoints plc playerCount =
     (case PLACEMENT_POINTS_BY_PLAYER_COUNT playerCount of
        None \<Rightarrow>
          (case the (PLACEMENT_POINTS_BY_PLAYER_COUNT 4) plc of
             None \<Rightarrow> 0 | Some pts \<Rightarrow> pts)
      | Some pointsTable \<Rightarrow> (case pointsTable plc of None \<Rightarrow> 0 | Some pts \<Rightarrow> pts))"

definition PREDICTION_RANGES_BY_PLAYER_COUNT :: "nat \<rightharpoonup> (PredictionType \<Rightarrow> rat \<times> rat)" where
  "PREDICTION_RANGES_BY_PLAYER_COUNT =
     [2 \<mapsto> (\<lambda>p. case p of ZERO \<Rightarrow> (0, 0) | MIN' \<Rightarrow> (- 1, - 1) | MORE \<Rightarrow> (6, 6) | MAX' \<Rightarrow> (12, 12)),
      3 \<mapsto> (\<lambda>p. case p of ZERO \<Rightarrow> (0, 0) | MIN' \<Rightarrow> (3, 3) | MORE \<Rightarrow> (6, 9) | MAX' \<Rightarrow> (10, 12)),
      4 \<mapsto> (\<lambda>p. case p of ZERO \<Rightarrow> (0, 0) | MIN' \<Rightarrow> (1, 4) | MORE \<Rightarrow> (6, 9) | MAX' \<Rightarrow> (10, 12)),
      5 \<mapsto> (\<lambda>p. case p of ZERO \<Rightarrow> (0, 0) | MIN' \<Rightarrow> (1, 4) | MORE \<Rightarrow> (5, 8) | MAX' \<Rightarrow> (10, 12)),
      6 \<mapsto> (\<lambda>p. case p of ZERO \<Rightarrow> (0, 0) | MIN' \<Rightarrow> (1, 4) | MORE \<Rightarrow> (5, 9) | MAX' \<Rightarrow> (10, 12))]"

definition getPredictionRange :: "PredictionType \<Rightarrow> nat \<Rightarrow> rat \<times> rat" where
  "getPredictionRange p playerCount =
     (case PREDICTION_RANGES_BY_PLAYER_COUNT playerCount of
        None \<Rightarrow> the (PREDICTION_RANGES_BY_PLAYER_COUNT 4) p
      | Some ranges \<Rightarrow> ranges p)"

definition getAvailablePredictions :: "nat \<Rightarrow> PredictionType list" where
  "getAvailablePredictions playerCount =
     (if playerCount = 2 then [ZERO, MORE, MAX'] else [ZERO, MIN', MORE, MAX'])"

definition PREDICTION_ZERO_BONUS :: rat where
  "PREDICTION_ZERO_BONUS = 40"

section \<open>Scorer (scoring/scorer.ts)\<close>

definition calculatePredictionBonus :: "PredictionType \<Rightarrow> rat \<Rightarrow> nat \<Rightarrow> rat" where
  "calculatePredictionBonus p roundTotal playerCount =
     (case getPredictionRange p playerCount of
        (lo, hi) \<Rightarrow>
          if roundTotal < lo \<or> roundTotal > hi then 0
          else if p = ZERO then PREDICTION_ZERO_BONUS
          else roundTotal)"

text \<open>
  The prediction ranges as the specification tabulates them; \<open>None\<close> is the entry
  "unused" (MIN with 2 players).
\<close>

fun spec_prediction_range :: "nat \<Rightarrow> PredictionType \<Rightarrow> (int \<times> int) option" where
  "spec_prediction_range n ZERO = Some (0, 0)"
| "spec_prediction_range n MAX' = (if n = 2 then Some (12, 12) else Some (10, 12))"
| "spec_prediction_range n MIN' =
     (if n = 2 then None else if n = 3 then Some (3, 3) else Some (1, 4))"
| "spec_prediction_range n MORE =
     (if n = 2 then Some (6, 6) else if n = 3 \<or> n = 4 then Some (6, 9)
      else if n = 5 then Some (5, 8) else Some (5, 9))"

definition spec_in_range :: "nat \<Rightarrow> PredictionType \<Rightarrow> int \<Rightarrow> bool" where
  "spec_in_range n p tot =
     (case spec_prediction_range n p of
        None \<Rightarrow> False
      | Some (lo, hi) \<Rightarrow> lo \<le> tot \<and> tot \<le> hi)"

text \<open>A selection handed to the scorer; \<open>diceUsed\<close> and \<open>diceValues\<close> are optional.\<close>

record PlayerSelection =
  sel_playerId :: string
  sel_hand :: EvaluatedHand
  sel_diceUsed :: "string list option"
  sel_diceValues :: "Die list option"

text \<open>The inner \<open>for\<close> loop: the points of the placements \<open>k .. k + t - 1\<close>, added up.\<close>

definition totalPoints :: "nat \<Rightarrow> nat \<Rightarrow> nat \<Rightarrow> rat" where
  "totalPoints actualPlayerCount currentPlacement t =
     foldl (\<lambda>acc p. js_add acc (getPlacementPoints p actualPlayerCount)) 0
       [currentPlacement ..< currentPlacement + t]"

definition tiedResult :: "nat \<Rightarrow> rat \<Rightarrow> PlayerSelection \<Rightarrow> SetResult" where
  "tiedResult currentPlacement pointsPerPlayer player =
     \<lparr>sr_playerId = sel_playerId player, sr_hand = sel_hand player,
      sr_diceUsed = (case sel_diceUsed player of None \<Rightarrow> [] | Some u \<Rightarrow> u),
      sr_diceValues = (case sel_diceValues player of None \<Rightarrow> [] | Some v \<Rightarrow> v),
      placement = currentPlacement, pointsEarned = pointsPerPlayer\<rparr>"

text \<open>
  The outer \<open>while\<close> loop of \<open>calculateSetPlacements\<close>, on the part of the sorted array
  from index \<open>i\<close> on: the players tied with \<open>sorted[i]\<close> are the longest run after it that
  compares equal to it, and the loop goes on behind that run.
\<close>

function placementLoop :: "nat \<Rightarrow> nat \<Rightarrow> PlayerSelection list \<Rightarrow> SetResult list" where
  "placementLoop actualPlayerCount currentPlacement [] = []"
| "placementLoop actualPlayerCount currentPlacement (s # rest) =
     (let tiedPlayers = s # takeWhile (\<lambda>y. compareHands (sel_hand s) (sel_hand y) = 0) rest;
          pointsPerPlayer =
            js_div (totalPoints actualPlayerCount currentPlacement (length tiedPlayers))
              (of_nat (length tiedPlayers))
      in map (tiedResult currentPlacement pointsPerPlayer) tiedPlayers @
         placementLoop actualPlayerCount (currentPlacement + length tiedPlayers)
           (dropWhile (\<lambda>y. compareHands (sel_hand s) (sel_hand y) = 0) rest))"
  by pat_completeness auto
termination
  by (relation "measure (\<lambda>(n, k, xs). length xs)")
    (auto simp: less_Suc_eq_le length_dropWhile_le)

definition calculateSetPlacements :: "PlayerSelection list \<Rightarrow> nat option \<Rightarrow> SetResult list" where
  "calculateSetPlacements selections playerCount =
     (if length selections = 0 then []
      else
        let actualPlayerCount = (case playerCount of None \<Rightarrow> length selections | Some n \<Rightarrow> n);
            sorted = js_sort (\<lambda>a b. sign_int (compareHands (sel_hand b) (sel_hand a))) selections
        in placementLoop actualPlayerCount 1 sorted)"

section \<open>Turn order (scoring/turn-order.ts)\<close>

definition calculateInitialTurnOrder :: "RollResult list \<Rightarrow> string list" where
  "calculateInitialTurnOrder rollResults =
     map rr_playerId (js_sort (\<lambda>a b. sign_int (roll a - roll b)) rollResults)"

text \<open>
  The index difference of the tie-break works on \<open>Infinity\<close> for a player that the
  original order does not list, so it can be infinite or \<open>NaN\<close>.
\<close>

datatype jsnum = Finite int | PosInfinity | NegInfinity | NaN

fun js_sub :: "jsnum \<Rightarrow> jsnum \<Rightarrow> jsnum" where
  "js_sub (Finite a) (Finite b) = Finite (a - b)"
| "js_sub (Finite a) PosInfinity = NegInfinity"
| "js_sub (Finite a) NegInfinity = PosInfinity"
| "js_sub PosInfinity (Finite b) = PosInfinity"
| "js_sub PosInfinity NegInfinity = PosInfinity"
| "js_sub PosInfinity PosInfinity = NaN"
| "js_sub NegInfinity (Finite b) = NegInfinity"
| "js_sub NegInfinity PosInfinity = NegInfinity"
| "js_sub NegInfinity NegInfinity = NaN"
| "js_sub NaN b = NaN"
| "js_sub a NaN = NaN"

fun sign_jsnum :: "jsnum \<Rightarrow> ordering" where
  "sign_jsnum (Finite v) = sign_int v"
| "sign_jsnum PosInfinity = GT"
| "sign_jsnum NegInfinity = LT"
| "sign_jsnum NaN = EQ"

text \<open>\<open>originalOrder.forEach((playerId, index) => originalOrderMap.set(playerId, index))\<close>\<close>

definition originalOrderMap :: "string list \<Rightarrow> (string \<rightharpoonup> nat)" where
  "originalOrderMap originalOrder =
     fold (\<lambda>(playerId, index) m. m(playerId \<mapsto> index))
       (zip originalOrder [0 ..< length originalOrder]) Map.empty"

definition originalIndex :: "(string \<rightharpoonup> nat) \<Rightarrow> Player \<Rightarrow> jsnum" where
  "originalIndex m a = (case m (player_id a) of None \<Rightarrow> PosInfinity | Some i \<Rightarrow> Finite (int i))"

definition turnOrderCompare :: "(string \<rightharpoonup> nat) \<Rightarrow> Player \<Rightarrow> Player \<Rightarrow> ordering" where
  "turnOrderCompare m a b =
     (if cumulativeScore b \<noteq> cumulativeScore a
      then sign_rat (cumulativeScore b - cumulativeScore a)
      else sign_jsnum (js_sub (originalIndex m a) (originalIndex m b)))"

definition calculateTurnOrder :: "Player list \<Rightarrow> string list \<Rightarrow> string list" where
  "calculateTurnOrder ps originalOrder =
     map player_id (js_sort (turnOrderCompare (originalOrderMap originalOrder)) ps)"

section \<open>Game constants (shared/src/constants/game.constants.ts)\<close>

text \<open>
  Modelled from the spec: \<open>GAME_LIMITS\<close> of constants/game.constants.ts is not among the
  sources. The specification gives 9 white dice per player, 3 dice per selection and a
  minimum of 2 players.
\<close>

definition WHITE_DICE_COUNT :: nat where
  "WHITE_DICE_COUNT = 9"

definition DICE_PER_SELECTION :: nat where
  "DICE_PER_SELECTION = 3"

definition MIN_PLAYERS :: nat where
  "MIN_PLAYERS = 2"

section \<open>Randomness\<close>

text \<open>
  \<open>Math.random()\<close> and \<open>uuidv4()\<close> read hidden state of the runtime. The state is made
  explicit: an \<open>Entropy\<close> holds what the coming calls will return, each call takes the
  first value and leaves the rest. \<open>Math.random()\<close> returns a number in [0, 1), which is
  the fractional part of the value it is given. Every theorem holds for every \<open>Entropy\<close>.
\<close>

record Entropy =
  random_src :: "nat \<Rightarrow> rat"
  uuid_src :: "nat \<Rightarrow> string"

definition Math_random :: "Entropy \<Rightarrow> rat \<times> Entropy" where
  "Math_random e = (frac (random_src e 0), e\<lparr>random_src := \<lambda>n. random_src e (Suc n)\<rparr>)"

definition uuidv4 :: "Entropy \<Rightarrow> string \<times> Entropy" where
  "uuidv4 e = (uuid_src e 0, e\<lparr>uuid_src := \<lambda>n. uuid_src e (Suc n)\<rparr>)"

text \<open>\<open>xs.map(f)\<close> for an \<open>f\<close> that draws random values: left to right.\<close>

fun map_entropy :: "('a \<Rightarrow> Entropy \<Rightarrow> 'b \<times> Entropy) \<Rightarrow> 'a list \<Rightarrow> Entropy \<Rightarrow> 'b list \<times> Entropy" where
  "map_entropy f [] e = ([], e)"
| "map_entropy f (x # xs) e =
     (case f x e of (y, e1) \<Rightarrow> (case map_entropy f xs e1 of (ys, e2) \<Rightarrow> (y # ys, e2)))"

text \<open>\<open>xs.map(f)\<close> for an \<open>f\<close> that may throw: the first exception ends the map.\<close>

fun map_throwing :: "('a \<Rightarrow> string + 'b) \<Rightarrow> 'a list \<Rightarrow> string + 'b list" where
  "map_throwing f [] = Inr []"
| "map_throwing f (x # xs) =
     (case f x of
        Inl err \<Rightarrow> Inl err
      | Inr y \<Rightarrow> (case map_throwing f xs of Inl err \<Rightarrow> Inl err | Inr ys \<Rightarrow> Inr (y # ys)))"

section \<open>State machine types (state-machine/types.ts)\<close>

record GameMachineContext =
  gameState :: GameState
  turnTimerId :: "nat option"
  turnTimeRemaining :: nat

datatype Event =
    START_GAME
  | INITIAL_ROLL_COMPLETE
  | SUBMIT_PREDICTION string PredictionType
  | PREDICTION_TIMEOUT
  | SELECT_DICE string "string list"
  | CONFIRM_SELECTION string
  | TURN_TIMEOUT
  | NEXT_SET
  | NEXT_ROUND
  | END_GAME

section \<open>Guards (state-machine/guards.ts)\<close>

text \<open>The key \<open>`${playerId}:confirmed`\<close> of \<open>pendingSelections\<close>.\<close>

definition confirmedKey :: "string \<Rightarrow> string" where
  "confirmedKey playerId = playerId @ '':confirmed''"

definition allPlayersRolled :: "GameMachineContext \<Rightarrow> bool" where
  "allPlayersRolled ctx =
     (let playerCount = length (players (gameState ctx));
          rollCount = length (initialRollResults (gameState ctx))
      in rollCount \<ge> playerCount \<and> playerCount > 0)"

definition allPredictionsSubmitted :: "GameMachineContext \<Rightarrow> bool" where
  "allPredictionsSubmitted ctx =
     list_all (\<lambda>player. prediction player \<noteq> None) (players (gameState ctx))"

definition allSelectionsConfirmed :: "GameMachineContext \<Rightarrow> bool" where
  "allSelectionsConfirmed ctx =
     list_all
       (\<lambda>player.
          (case pendingSelections (gameState ctx) (player_id player) of
             None \<Rightarrow> False
           | Some selection \<Rightarrow>
               length selection = 3 \<and>
               pendingSelections (gameState ctx) (confirmedKey (player_id player)) \<noteq> None))
       (players (gameState ctx))"

definition isSet1 :: "GameMachineContext \<Rightarrow> bool" where
  "isSet1 ctx = (currentSet (gameState ctx) = 1)"

definition isSet2 :: "GameMachineContext \<Rightarrow> bool" where
  "isSet2 ctx = (currentSet (gameState ctx) = 2)"

definition hasMoreRounds :: "GameMachineContext \<Rightarrow> bool" where
  "hasMoreRounds ctx = (currentRound (gameState ctx) < totalRounds (config (gameState ctx)))"

definition isGameOver :: "GameMachineContext \<Rightarrow> bool" where
  "isGameOver ctx = (currentRound (gameState ctx) \<ge> totalRounds (config (gameState ctx)))"

definition isRound1 :: "GameMachineContext \<Rightarrow> bool" where
  "isRound1 ctx = (currentRound (gameState ctx) = 1)"

definition isLastPlayerTurn :: "GameMachineContext \<Rightarrow> bool" where
  "isLastPlayerTurn ctx =
     (int (currentTurnIndex (gameState ctx)) \<ge> int (length (turnOrder (gameState ctx))) - 1)"

section \<open>Actions (state-machine/actions.ts)\<close>

definition rollDie :: "Entropy \<Rightarrow> int \<times> Entropy" where
  "rollDie e = (case Math_random e of (r, e1) \<Rightarrow> (\<lfloor>r * 6\<rfloor> + 1, e1))"

definition createDie :: "DieColor \<Rightarrow> Entropy \<Rightarrow> Die \<times> Entropy" where
  "createDie c e =
     (case uuidv4 e of (i, e1) \<Rightarrow>
        (case rollDie e1 of (v, e2) \<Rightarrow>
           (\<lparr>die_id = i, die_color = c, die_value = v, isSpent = False,
             isRevealed = (c = WHITE)\<rparr>, e2)))"

text \<open>The loop \<open>for (i = 0; i < n; i++) dice.push(createDie(color))\<close>.\<close>

fun createDice :: "nat \<Rightarrow> DieColor \<Rightarrow> Entropy \<Rightarrow> Die list \<times> Entropy" where
  "createDice 0 c e = ([], e)"
| "createDice (Suc n) c e =
     (case createDie c e of (d, e1) \<Rightarrow> (case createDice n c e1 of (ds, e2) \<Rightarrow> (d # ds, e2)))"

definition generatePlayerDice :: "Entropy \<Rightarrow> Die list \<times> Entropy" where
  "generatePlayerDice e =
     (case createDice WHITE_DICE_COUNT WHITE e of (ws, e1) \<Rightarrow>
        (case createDie RED e1 of (r, e2) \<Rightarrow>
           (case createDie BLUE e2 of (b, e3) \<Rightarrow> (ws @ [r, b], e3))))"

definition rerollPlayers :: "Player list \<Rightarrow> Entropy \<Rightarrow> Player list \<times> Entropy" where
  "rerollPlayers ps e =
     map_entropy
       (\<lambda>player e0. case generatePlayerDice e0 of (ds, e1) \<Rightarrow> (player\<lparr>dice := ds\<rparr>, e1)) ps e"

definition rollAllDice :: "GameMachineContext \<Rightarrow> Entropy \<Rightarrow> GameMachineContext \<times> Entropy" where
  "rollAllDice ctx e =
     (case rerollPlayers (players (gameState ctx)) e of
        (ps, e1) \<Rightarrow> (ctx\<lparr>gameState := (gameState ctx)\<lparr>players := ps\<rparr>\<rparr>, e1))"

definition rollInitialTurnOrder ::
  "GameMachineContext \<Rightarrow> Entropy \<Rightarrow> GameMachineContext \<times> Entropy" where
  "rollInitialTurnOrder ctx e =
     (case map_entropy
             (\<lambda>player e0.
                case rollDie e0 of (a, e1) \<Rightarrow>
                  (case rollDie e1 of (b, e2) \<Rightarrow>
                     (\<lparr>rr_playerId = player_id player, roll = a + b\<rparr>, e2)))
             (players (gameState ctx)) e of
        (rollResults, e1) \<Rightarrow>
          (ctx\<lparr>gameState := (gameState ctx)\<lparr>initialRollResults := rollResults\<rparr>\<rparr>, e1))"

definition setTurnOrder :: "GameMachineContext \<Rightarrow> GameMachineContext" where
  "setTurnOrder ctx =
     (let gs = gameState ctx;
          order =
            (if currentRound gs = 1 \<and> length (initialRollResults gs) > 0
             then calculateInitialTurnOrder (initialRollResults gs)
             else calculateTurnOrder (players gs)
                    (calculateInitialTurnOrder (initialRollResults gs)))
      in ctx\<lparr>gameState := gs\<lparr>turnOrder := order, currentTurnIndex := 0\<rparr>\<rparr>)"

text \<open>\<open>pendingSelections[player.id] || []\<close>\<close>

definition pendingDieIds :: "(string \<rightharpoonup> string list) \<Rightarrow> Player \<Rightarrow> string list" where
  "pendingDieIds pending player =
     (case pending (player_id player) of None \<Rightarrow> [] | Some dieIds \<Rightarrow> dieIds)"

text \<open>\<open>dieIds.map((id) => player.dice.find((d) => d.id === id)).filter(defined)\<close>\<close>

definition selectedDiceOf :: "Player \<Rightarrow> string list \<Rightarrow> Die list" where
  "selectedDiceOf player dieIds =
     List.map_filter (\<lambda>i. find (\<lambda>d. die_id d = i) (dice player)) dieIds"

definition buildSelection :: "(string \<rightharpoonup> string list) \<Rightarrow> Player \<Rightarrow> string + PlayerSelection" where
  "buildSelection pending player =
     (let dieIds = pendingDieIds pending player;
          selectedDice = selectedDiceOf player dieIds;
          revealedDice = map (\<lambda>die. die\<lparr>isRevealed := True\<rparr>) selectedDice
      in case evaluateHand selectedDice of
           Inl err \<Rightarrow> Inl err
         | Inr h \<Rightarrow>
             Inr \<lparr>sel_playerId = player_id player, sel_hand = h, sel_diceUsed = Some dieIds,
                  sel_diceValues = Some revealedDice\<rparr>)"

definition scorePlayer ::
  "SetResult list \<Rightarrow> (string \<rightharpoonup> string list) \<Rightarrow> nat \<Rightarrow> Player \<Rightarrow> Player" where
  "scorePlayer results pending curSet player =
     (let earned =
            (case find (\<lambda>r. sr_playerId r = player_id player) results of
               None \<Rightarrow> 0 | Some r \<Rightarrow> pointsEarned r);
          dieIds = pendingDieIds pending player;
          updatedDice =
            map (\<lambda>die. die\<lparr>isSpent := isSpent die \<or> die_id die \<in> set dieIds,
                           isRevealed := isRevealed die \<or> die_id die \<in> set dieIds\<rparr>)
              (dice player);
          s1 = (if curSet = 1 then earned else set1Score player);
          s2 = (if curSet = 2 then earned else set2Score player)
      in player\<lparr>dice := updatedDice, set1Score := s1, set2Score := s2,
                currentRoundScore := js_add s1 s2\<rparr>)"

definition processSetSelection :: "GameMachineContext \<Rightarrow> string + GameMachineContext" where
  "processSetSelection ctx =
     (let gs = gameState ctx in
      case map_throwing (buildSelection (pendingSelections gs)) (players gs) of
        Inl err \<Rightarrow> Inl err
      | Inr selections \<Rightarrow>
          let playerCount = length (players gs);
              results = calculateSetPlacements selections (Some playerCount)
          in Inr (ctx\<lparr>gameState := gs
                   \<lparr>players := map (scorePlayer results (pendingSelections gs) (currentSet gs))
                                 (players gs),
                    setResults := results\<rparr>\<rparr>))"

text \<open>
  \<open>player.prediction!\<close> only silences the type checker. With a \<open>null\<close> prediction
  \<open>getPredictionRange\<close> returns \<open>undefined\<close> and destructuring it throws.
\<close>

definition predictionOutcome :: "nat \<Rightarrow> Player \<Rightarrow> string + PredictionOutcome" where
  "predictionOutcome playerCount player =
     (case prediction player of
        None \<Rightarrow> Inl ''TypeError: undefined is not iterable''
      | Some p \<Rightarrow>
          let roundTotal = currentRoundScore player;
              b = calculatePredictionBonus p roundTotal playerCount
          in Inr \<lparr>po_playerId = player_id player, po_type = p, correct = (b > 0), bonus = b\<rparr>)"

definition applyBonus :: "PredictionOutcome list \<Rightarrow> Player \<Rightarrow> Player" where
  "applyBonus outcomes player =
     (let b = (case find (\<lambda>p. po_playerId p = player_id player) outcomes of
                 None \<Rightarrow> 0 | Some r \<Rightarrow> bonus r)
      in player\<lparr>cumulativeScore :=
                  js_add (js_add (cumulativeScore player) (currentRoundScore player)) b\<rparr>)"

definition processPredictions :: "GameMachineContext \<Rightarrow> string + GameMachineContext" where
  "processPredictions ctx =
     (let gs = gameState ctx; playerCount = length (players gs) in
      case map_throwing (predictionOutcome playerCount) (players gs) of
        Inl err \<Rightarrow> Inl err
      | Inr outcomes \<Rightarrow>
          let roundResult =
                \<lparr>roundNumber = currentRound gs,
                 set1Results =
                   (if length (roundHistory gs) > 0 then set1Results (last (roundHistory gs))
                    else []),
                 set2Results = setResults gs,
                 predictions = outcomes\<rparr>
          in Inr (ctx\<lparr>gameState := gs
                   \<lparr>players := map (applyBonus outcomes) (players gs),
                    roundHistory := roundHistory gs @ [roundResult]\<rparr>\<rparr>))"


definition advanceSet :: "GameMachineContext \<Rightarrow> GameMachineContext" where
  "advanceSet ctx =
     (let gs = gameState ctx;
          stored = setResults gs;
          history =
            (if length (roundHistory gs) > 0
             then (roundHistory gs)
                    [length (roundHistory gs) - 1 :=
                       (last (roundHistory gs))\<lparr>set1Results := stored\<rparr>]
             else roundHistory gs)
      in ctx\<lparr>gameState := gs
           \<lparr>roundHistory := history, currentSet := 2, currentTurnIndex := 0,
            setResults := [], pendingSelections := Map.empty\<rparr>\<rparr>)"

definition advanceRound :: "GameMachineContext \<Rightarrow> Entropy \<Rightarrow> GameMachineContext \<times> Entropy" where
  "advanceRound ctx e =
     (let gs = gameState ctx in
      case rerollPlayers (players gs) e of
        (ps, e1) \<Rightarrow>
          (ctx\<lparr>gameState := gs
             \<lparr>currentRound := currentRound gs + 1, currentSet := 1, currentTurnIndex := 0,
              setResults := [], pendingSelections := Map.empty, players := ps\<rparr>\<rparr>, e1))"

definition resetPlayerRoundState :: "GameMachineContext \<Rightarrow> GameMachineContext" where
  "resetPlayerRoundState ctx =
     ctx\<lparr>gameState := (gameState ctx)
       \<lparr>players :=
          map (\<lambda>player. player\<lparr>set1Score := 0, set2Score := 0, currentRoundScore := 0,
                                prediction := None\<rparr>)
            (players (gameState ctx))\<rparr>\<rparr>"

definition setPhase :: "GamePhase \<Rightarrow> GameMachineContext \<Rightarrow> GameMachineContext" where
  "setPhase ph ctx = ctx\<lparr>gameState := (gameState ctx)\<lparr>phase := ph\<rparr>\<rparr>"

definition storePrediction :: "string \<Rightarrow> PredictionType \<Rightarrow> GameMachineContext \<Rightarrow> GameMachineContext" where
  "storePrediction playerId p ctx =
     ctx\<lparr>gameState := (gameState ctx)
       \<lparr>players :=
          map (\<lambda>player. if player_id player = playerId then player\<lparr>prediction := Some p\<rparr>
                         else player)
            (players (gameState ctx))\<rparr>\<rparr>"

definition storeDiceSelection :: "string \<Rightarrow> string list \<Rightarrow> GameMachineContext \<Rightarrow> GameMachineContext" where
  "storeDiceSelection playerId dieIds ctx =
     ctx\<lparr>gameState := (gameState ctx)
       \<lparr>pendingSelections := (pendingSelections (gameState ctx))(playerId \<mapsto> dieIds)\<rparr>\<rparr>"

text \<open>\<open>turnOrder[currentTurnIndex]\<close>, which is \<open>undefined\<close> behind the end of the array.\<close>

definition currentPlayerId :: "GameState \<Rightarrow> string option" where
  "currentPlayerId gs =
     (if currentTurnIndex gs < length (turnOrder gs)
      then Some (turnOrder gs ! currentTurnIndex gs) else None)"

definition confirmSelection :: "string \<Rightarrow> GameMachineContext \<Rightarrow> GameMachineContext" where
  "confirmSelection playerId ctx =
     (let gs = gameState ctx;
          pending = (pendingSelections gs)(confirmedKey playerId \<mapsto> [''confirmed'']);
          idx = (if currentPlayerId gs = Some playerId then currentTurnIndex gs + 1
                 else currentTurnIndex gs)
      in ctx\<lparr>gameState := gs\<lparr>pendingSelections := pending, currentTurnIndex := idx\<rparr>\<rparr>)"

definition autoSelectDice :: "GameMachineContext \<Rightarrow> GameMachineContext" where
  "autoSelectDice ctx =
     (let gs = gameState ctx in
      case currentPlayerId gs of
        None \<Rightarrow> ctx
      | Some cur \<Rightarrow>
          (case find (\<lambda>p. player_id p = cur) (players gs) of
             None \<Rightarrow> ctx
           | Some player \<Rightarrow>
               let availableDice = filter (\<lambda>d. \<not> isSpent d) (dice player);
                   selectedDieIds = map die_id (take 3 availableDice)
               in ctx\<lparr>gameState := gs
                    \<lparr>pendingSelections :=
                       (pendingSelections gs)
                         (cur \<mapsto> selectedDieIds, confirmedKey cur \<mapsto> [''confirmed'']),
                     currentTurnIndex := currentTurnIndex gs + 1\<rparr>\<rparr>))"

definition clearTurnTimer :: "GameMachineContext \<Rightarrow> GameMachineContext" where
  "clearTurnTimer ctx = ctx\<lparr>turnTimerId := None, turnTimeRemaining := 0\<rparr>"

definition autoSubmitPredictions ::
  "GameMachineContext \<Rightarrow> Entropy \<Rightarrow> GameMachineContext \<times> Entropy" where
  "autoSubmitPredictions ctx e =
     (let gs = gameState ctx;
          availablePredictions = getAvailablePredictions (length (players gs))
      in case map_entropy
                (\<lambda>player e0.
                   if prediction player = None then
                     (case Math_random e0 of
                        (r, e1) \<Rightarrow>
                          (player\<lparr>prediction :=
                             Some (availablePredictions !
                                     nat \<lfloor>r * of_nat (length availablePredictions)\<rfloor>)\<rparr>, e1))
                   else (player, e0))
                (players gs) e of
           (ps, e1) \<Rightarrow> (ctx\<lparr>gameState := gs\<lparr>players := ps\<rparr>\<rparr>, e1))"

definition initializeRound1 :: "GameMachineContext \<Rightarrow> GameMachineContext" where
  "initializeRound1 ctx = ctx\<lparr>gameState := (gameState ctx)\<lparr>currentRound := 1\<rparr>\<rparr>"

definition clearPendingSelections :: "GameMachineContext \<Rightarrow> GameMachineContext" where
  "clearPendingSelections ctx =
     ctx\<lparr>gameState := (gameState ctx)\<lparr>pendingSelections := Map.empty\<rparr>\<rparr>"

section \<open>The state machine (state-machine/game.machine.ts)\<close>

text \<open>
  The machine is an XState v5 configuration; the library itself is not part of the
  repository, and the model follows its documented semantics. A snapshot has a state
  value, a context and a status. An event selects the first transition of the current
  state whose guard holds; its actions run in the order: actions of the transition, then
  entry actions of the target (a transition without target enters nothing). After that,
  and also when no transition was selected, the eventless (\<open>always\<close>) transitions run as
  long as one is enabled. All actions are \<open>assign\<close> actions and so run while the next
  snapshot is computed: when one of them throws, the actor stops with status \<open>error\<close> and
  keeps the snapshot it had. Entering the final state \<open>game_over\<close> ends the actor with
  status \<open>done\<close>; a stopped actor drops every event.
\<close>

datatype StateValue =
    lobby_state | initial_roll_state | prediction_state | set_selection_state
  | set_reveal_state | round_summary_state | game_over_state

datatype SnapshotStatus = Active | Done | Error

record Snapshot =
  snapshot_value :: StateValue
  snapshot_context :: GameMachineContext
  snapshot_status :: SnapshotStatus

type_synonym Action = "GameMachineContext \<Rightarrow> Entropy \<Rightarrow> (string + GameMachineContext) \<times> Entropy"

definition pure_action :: "(GameMachineContext \<Rightarrow> GameMachineContext) \<Rightarrow> Action" where
  "pure_action f = (\<lambda>ctx e. (Inr (f ctx), e))"

definition throwing_action :: "(GameMachineContext \<Rightarrow> string + GameMachineContext) \<Rightarrow> Action" where
  "throwing_action f = (\<lambda>ctx e. (f ctx, e))"

definition random_action ::
  "(GameMachineContext \<Rightarrow> Entropy \<Rightarrow> GameMachineContext \<times> Entropy) \<Rightarrow> Action" where
  "random_action f = (\<lambda>ctx e. case f ctx e of (ctx1, e1) \<Rightarrow> (Inr ctx1, e1))"

fun run_actions :: "Action list \<Rightarrow> Action" where
  "run_actions [] ctx e = (Inr ctx, e)"
| "run_actions (a # as) ctx e =
     (case a ctx e of
        (Inl err, e1) \<Rightarrow> (Inl err, e1)
      | (Inr ctx1, e1) \<Rightarrow> run_actions as ctx1 e1)"

text \<open>The \<open>entry\<close> actions of each state.\<close>

fun entry :: "StateValue \<Rightarrow> Action list" where
  "entry lobby_state = [pure_action (setPhase LOBBY)]"
| "entry initial_roll_state =
     [pure_action (setPhase INITIAL_ROLL), random_action rollInitialTurnOrder]"
| "entry prediction_state = [pure_action (setPhase PREDICTION)]"
| "entry set_selection_state = [pure_action (setPhase SET_SELECTION)]"
| "entry set_reveal_state = [pure_action (setPhase SET_REVEAL)]"
| "entry round_summary_state =
     [pure_action (setPhase ROUND_SUMMARY), throwing_action processPredictions]"
| "entry game_over_state = [pure_action (setPhase GAME_OVER), pure_action clearTurnTimer]"

text \<open>
  The \<open>on\<close> transitions: for a state, the context and an event, the target (if any) and
  the actions of the first transition whose guard holds.
\<close>

fun on_event ::
  "StateValue \<Rightarrow> GameMachineContext \<Rightarrow> Event \<Rightarrow> (StateValue option \<times> Action list) option" where
  "on_event lobby_state ctx START_GAME =
     Some (Some initial_roll_state, [pure_action initializeRound1])"
| "on_event prediction_state ctx (SUBMIT_PREDICTION playerId p) =
     Some (None, [pure_action (storePrediction playerId p)])"
| "on_event prediction_state ctx PREDICTION_TIMEOUT =
     Some (None, [random_action autoSubmitPredictions])"
| "on_event set_selection_state ctx (SELECT_DICE playerId dieIds) =
     Some (None, [pure_action (storeDiceSelection playerId dieIds)])"
| "on_event set_selection_state ctx (CONFIRM_SELECTION playerId) =
     Some (None, [pure_action (confirmSelection playerId)])"
| "on_event set_selection_state ctx TURN_TIMEOUT =
     Some (None, [pure_action autoSelectDice])"
| "on_event set_reveal_state ctx NEXT_SET =
     (if isSet1 ctx then Some (Some set_selection_state, [pure_action advanceSet])
      else if isSet2 ctx then Some (Some round_summary_state, [])
      else None)"
| "on_event round_summary_state ctx NEXT_ROUND =
     (if hasMoreRounds ctx then
        Some (Some prediction_state,
              [random_action advanceRound, pure_action resetPlayerRoundState,
               pure_action setTurnOrder])
      else if isGameOver ctx then Some (Some game_over_state, [])
      else None)"
| "on_event round_summary_state ctx END_GAME = Some (Some game_over_state, [])"
| "on_event _ ctx _ = None"

text \<open>The \<open>always\<close> transitions.\<close>

fun always :: "StateValue \<Rightarrow> GameMachineContext \<Rightarrow> (StateValue \<times> Action list) option" where
  "always initial_roll_state ctx =
     (if allPlayersRolled ctx
      then Some (prediction_state, [pure_action setTurnOrder, random_action rollAllDice])
      else None)"
| "always prediction_state ctx =
     (if allPredictionsSubmitted ctx
      then Some (set_selection_state, [pure_action clearPendingSelections])
      else None)"
| "always set_selection_state ctx =
     (if allSelectionsConfirmed ctx
      then Some (set_reveal_state, [throwing_action processSetSelection])
      else None)"
| "always _ ctx = None"

definition microstep ::
  "StateValue option \<times> Action list \<Rightarrow> Snapshot \<Rightarrow> Entropy \<Rightarrow> (string + Snapshot) \<times> Entropy" where
  "microstep tr s e =
     (case tr of
        (None, acts) \<Rightarrow>
          (case run_actions acts (snapshot_context s) e of
             (Inl err, e1) \<Rightarrow> (Inl err, e1)
           | (Inr ctx1, e1) \<Rightarrow> (Inr (s\<lparr>snapshot_context := ctx1\<rparr>), e1))
      | (Some target, acts) \<Rightarrow>
          (case run_actions (acts @ entry target) (snapshot_context s) e of
             (Inl err, e1) \<Rightarrow> (Inl err, e1)
           | (Inr ctx1, e1) \<Rightarrow>
               (Inr \<lparr>snapshot_value = target, snapshot_context = ctx1,
                     snapshot_status = (if target = game_over_state then Done else Active)\<rparr>,
                e1)))"

text \<open>How many eventless transitions can still follow a state.\<close>

fun always_depth :: "StateValue \<Rightarrow> nat" where
  "always_depth initial_roll_state = 3"
| "always_depth prediction_state = 2"
| "always_depth set_selection_state = 1"
| "always_depth _ = 0"

lemma always_depth_decreases:
  "always v ctx = Some (t, acts) \<Longrightarrow> always_depth t < always_depth v"
  by (cases v) (auto split: if_splits)

lemma microstep_target:
  "microstep (Some t, acts) s e = (Inr s1, e1) \<Longrightarrow> snapshot_value s1 = t"
  by (auto simp: microstep_def split: prod.splits sum.splits)

function settle :: "Snapshot \<Rightarrow> Entropy \<Rightarrow> (string + Snapshot) \<times> Entropy" where
  "settle s e =
     (if snapshot_status s \<noteq> Active then (Inr s, e)
      else
        case always (snapshot_value s) (snapshot_context s) of
          None \<Rightarrow> (Inr s, e)
        | Some (t, acts) \<Rightarrow>
            (case microstep (Some t, acts) s e of
               (Inl err, e1) \<Rightarrow> (Inl err, e1)
             | (Inr s1, e1) \<Rightarrow> settle s1 e1))"
  by pat_completeness auto
termination
proof (relation "measure (\<lambda>(s, e). always_depth (snapshot_value s))", goal_cases)
  case 1
  show ?case by simp
next
  case (2 s e x2 t acts x y s1)
  then show ?case
    using always_depth_decreases microstep_target by (metis case_prod_conv in_measure)
qed

declare settle.simps [simp del]

text \<open>\<open>actor.send(event)\<close>: the snapshot and the entropy after the event.\<close>

definition send :: "Event \<Rightarrow> Snapshot \<times> Entropy \<Rightarrow> Snapshot \<times> Entropy" where
  "send ev se =
     (case se of
        (s, e) \<Rightarrow>
          if snapshot_status s \<noteq> Active then (s, e)
          else
            (case (case on_event (snapshot_value s) (snapshot_context s) ev of
                     None \<Rightarrow> settle s e
                   | Some tr \<Rightarrow>
                       (case microstep tr s e of
                          (Inl err, e1) \<Rightarrow> (Inl err, e1)
                        | (Inr s1, e1) \<Rightarrow> settle s1 e1)) of
               (Inl err, e1) \<Rightarrow> (s\<lparr>snapshot_status := Error\<rparr>, e1)
             | (Inr s1, e1) \<Rightarrow> (s1, e1)))"


definition getGameStateFromActor :: "Snapshot \<Rightarrow> GameState" where
  "getGameStateFromActor s = gameState (snapshot_context s)"

section \<open>Room service (room.service.ts)\<close>

text \<open>
  The state store maps a room code to the game state last written for it
  (\<open>redisService.getGameState\<close> returns \<open>null\<close> for a room it does not hold).
\<close>

record StartCheck =
  canStart :: bool
  reason :: "string option"

definition canStartGame :: "(string \<rightharpoonup> GameState) \<Rightarrow> string \<Rightarrow> StartCheck" where
  "canStartGame redisStore code =
     (case redisStore code of
        None \<Rightarrow> \<lparr>canStart = False, reason = Some ''Room not found''\<rparr>
      | Some gs \<Rightarrow>
          if phase gs \<noteq> LOBBY then
            \<lparr>canStart = False, reason = Some ''Game already in progress''\<rparr>
          else if length (players gs) < MIN_PLAYERS then
            \<lparr>canStart = False,
             reason = Some (''Need at least '' @ digits10 MIN_PLAYERS @ '' players'')\<rparr>
          else
            let allReady = list_all (\<lambda>p. isReady p \<or> isHost p) (players gs)
            in if \<not> allReady then
                 \<lparr>canStart = False, reason = Some ''Not all players are ready''\<rparr>
               else \<lparr>canStart = True, reason = None\<rparr>)"

section \<open>Game service and gateway (game.service.ts, game.gateway.ts)\<close>

text \<open>
  What the server sends: an event to the socket of the calling client, or a broadcast to
  all sockets of a room. The server's mutable state is one record: the actors, the state
  store, the timer tables of the game service, the acknowledgement tables of the gateway,
  the messages sent so far and the entropy. A timer is kept as what it was started with;
  its later ticks happen in real time and are not part of the model.
\<close>

record GameError =
  error_code :: string
  error_message :: string

datatype ServerEvent =
    RoomError string string
  | PredictionSubmitted string
  | PredictionAllSubmitted
  | GamePhaseChange GamePhase GameState
  | GameInitialRoll "RollResult list" "string list"
  | GameTimerTick nat
  | GameTurnStart "string option" nat
  | SetReveal "SetResult list" GameState
  | RoundComplete RoundResult GameState
  | GameOverStandings "(string \<times> string \<times> rat) list"

datatype Emission = ToClient ServerEvent | ToRoom string ServerEvent

datatype Timer = TurnTimer "string option" nat | PredictionTimer nat

record Server =
  gameActors :: "string \<rightharpoonup> Snapshot"
  redisStore :: "string \<rightharpoonup> GameState"
  turnTimers :: "string \<rightharpoonup> Timer"
  predictionTimers :: "string \<rightharpoonup> Timer"
  resultsAcknowledgements :: "string \<rightharpoonup> string set"
  resultsTimeouts :: "string set"
  sent :: "Emission list"
  entropy :: Entropy

definition emit :: "Emission \<Rightarrow> Server \<Rightarrow> Server" where
  "emit m srv = srv\<lparr>sent := sent srv @ [m]\<rparr>"

definition clearTurnTimerOf :: "string \<Rightarrow> Server \<Rightarrow> Server" where
  "clearTurnTimerOf code srv = srv\<lparr>turnTimers := (turnTimers srv)(code := None)\<rparr>"

definition clearPredictionTimer :: "string \<Rightarrow> Server \<Rightarrow> Server" where
  "clearPredictionTimer code srv = srv\<lparr>predictionTimers := (predictionTimers srv)(code := None)\<rparr>"

definition startTurnTimer :: "string \<Rightarrow> string option \<Rightarrow> Server \<Rightarrow> Server" where
  "startTurnTimer code playerId srv =
     (let srv1 = clearTurnTimerOf code srv in
      case gameActors srv1 code of
        None \<Rightarrow> srv1
      | Some actor \<Rightarrow>
          let timerSeconds = turnTimerSeconds (config (getGameStateFromActor actor));
              srv2 = emit (ToRoom code (GameTimerTick timerSeconds)) srv1
          in srv2\<lparr>turnTimers := (turnTimers srv2)(code \<mapsto> TurnTimer playerId timerSeconds)\<rparr>)"

definition startPredictionTimer :: "string \<Rightarrow> Server \<Rightarrow> Server" where
  "startPredictionTimer code srv =
     (let srv1 = clearPredictionTimer code srv in
      case gameActors srv1 code of
        None \<Rightarrow> srv1
      | Some actor \<Rightarrow>
          let timerSeconds = turnTimerSeconds (config (getGameStateFromActor actor));
              srv2 = emit (ToRoom code (GameTimerTick timerSeconds)) srv1
          in srv2\<lparr>predictionTimers := (predictionTimers srv2)(code \<mapsto> PredictionTimer timerSeconds)\<rparr>)"

definition clearResultsAcknowledgements :: "string \<Rightarrow> Server \<Rightarrow> Server" where
  "clearResultsAcknowledgements code srv =
     srv\<lparr>resultsAcknowledgements := (resultsAcknowledgements srv)(code := None),
         resultsTimeouts := resultsTimeouts srv - {code}\<rparr>"

text \<open>The gateway's \<open>handleGameStateChange\<close>.\<close>

definition handleGameStateChange :: "string \<Rightarrow> GamePhase \<Rightarrow> GameState \<Rightarrow> Server \<Rightarrow> Server" where
  "handleGameStateChange code ph gs srv =
     (let srv1 = emit (ToRoom code (GamePhaseChange ph gs)) srv in
      case ph of
        INITIAL_ROLL \<Rightarrow>
          if length (initialRollResults gs) > 0
          then emit (ToRoom code (GameInitialRoll (initialRollResults gs) (turnOrder gs))) srv1
          else srv1
      | PREDICTION \<Rightarrow> emit (ToRoom code (GameTimerTick (turnTimerSeconds (config gs)))) srv1
      | SET_SELECTION \<Rightarrow>
          if length (turnOrder gs) > 0
          then emit (ToRoom code (GameTurnStart (currentPlayerId gs) (turnTimerSeconds (config gs))))
                 srv1
          else srv1
      | SET_REVEAL \<Rightarrow>
          emit (ToRoom code (SetReveal (setResults gs) gs)) (clearResultsAcknowledgements code srv1)
      | ROUND_SUMMARY \<Rightarrow>
          (let srv2 = clearResultsAcknowledgements code srv1 in
           if length (roundHistory gs) > 0
           then emit (ToRoom code (RoundComplete (last (roundHistory gs)) gs)) srv2
           else srv2)
      | GAME_OVER \<Rightarrow>
          emit (ToRoom code
                  (GameOverStandings
                     (js_sort (\<lambda>a b. sign_rat (snd (snd b) - snd (snd a)))
                        (map (\<lambda>p. (player_id p, player_name p, cumulativeScore p)) (players gs)))))
            srv1
      | LOBBY \<Rightarrow> srv1)"

text \<open>
  The game service's \<open>handleStateChange\<close>, which the actor's subscription calls with every
  new snapshot.
\<close>

definition handleStateChange :: "string \<Rightarrow> GamePhase \<Rightarrow> GameState \<Rightarrow> Server \<Rightarrow> Server" where
  "handleStateChange code ph gs srv =
     (let srv1 = (if ph = PREDICTION then startPredictionTimer code srv else srv);
          srv2 = (if ph \<noteq> PREDICTION then clearPredictionTimer code srv1 else srv1);
          srv3 = (if ph = SET_SELECTION then startTurnTimer code (currentPlayerId gs) srv2 else srv2);
          srv4 = (if ph \<noteq> SET_SELECTION then clearTurnTimerOf code srv3 else srv3)
      in handleGameStateChange code ph gs srv4)"

text \<open>
  \<open>actor.send(event)\<close> on the actor of a room: the actor takes its new snapshot, and the
  subscription runs when the event was processed without error.
\<close>

definition actorSend :: "string \<Rightarrow> Snapshot \<Rightarrow> Event \<Rightarrow> Server \<Rightarrow> Server" where
  "actorSend code actor ev srv =
     (case send ev (actor, entropy srv) of
        (actor1, e1) \<Rightarrow>
          let srv1 = srv\<lparr>gameActors := (gameActors srv)(code \<mapsto> actor1), entropy := e1\<rparr>
          in if snapshot_status actor = Active \<and> snapshot_status actor1 \<noteq> Error
             then handleStateChange code (phase (getGameStateFromActor actor1))
                    (getGameStateFromActor actor1) srv1
             else srv1)"

definition submitPrediction ::
  "string \<Rightarrow> string \<Rightarrow> PredictionType \<Rightarrow> Server \<Rightarrow> (GameError + GameState) \<times> Server" where
  "submitPrediction code playerId p srv =
     (case gameActors srv code of
        None \<Rightarrow>
          (Inl \<lparr>error_code = ''GAME_NOT_FOUND'',
                error_message = ''Game not found or not started''\<rparr>, srv)
      | Some actor \<Rightarrow>
          if snapshot_value actor \<noteq> prediction_state then
            (Inl \<lparr>error_code = ''INVALID_PHASE'', error_message = ''Not in prediction phase''\<rparr>,
             srv)
          else
            (case find (\<lambda>pl. player_id pl = playerId)
                    (players (gameState (snapshot_context actor))) of
               None \<Rightarrow>
                 (Inl \<lparr>error_code = ''PLAYER_NOT_FOUND'',
                       error_message = ''Player not found in game''\<rparr>, srv)
             | Some player \<Rightarrow>
                 if prediction player \<noteq> None then
                   (Inl \<lparr>error_code = ''PREDICTION_ALREADY_SUBMITTED'',
                         error_message = ''Prediction already submitted''\<rparr>, srv)
                 else
                   let srv1 = actorSend code actor (SUBMIT_PREDICTION playerId p) srv;
                       currentState =
                         (case gameActors srv1 code of
                            None \<Rightarrow> gameState (snapshot_context actor)
                          | Some actor1 \<Rightarrow> getGameStateFromActor actor1)
                   in (Inr currentState,
                       srv1\<lparr>redisStore := (redisStore srv1)(code \<mapsto> currentState)\<rparr>)))"

text \<open>The data a socket carries: both fields are unset until the client is in a room.\<close>

record SocketData =
  socket_playerId :: "string option"
  socket_roomCode :: "string option"

text \<open>\<open>!x\<close> for an optional string: unset or empty.\<close>

definition falsy :: "string option \<Rightarrow> bool" where
  "falsy x = (x = None \<or> x = Some [])"

definition handlePredictionSubmit :: "SocketData \<Rightarrow> PredictionType \<Rightarrow> Server \<Rightarrow> Server" where
  "handlePredictionSubmit client p srv =
     (if falsy (socket_playerId client) \<or> falsy (socket_roomCode client) then
        emit (ToClient (RoomError ''Not in a room'' ''NOT_IN_ROOM'')) srv
      else
        let playerId = the (socket_playerId client); code = the (socket_roomCode client) in
        case submitPrediction code playerId p srv of
          (Inl err, srv1) \<Rightarrow> emit (ToClient (RoomError (error_message err) (error_code err))) srv1
        | (Inr gs, srv1) \<Rightarrow>
            let srv2 = emit (ToRoom code (PredictionSubmitted playerId)) srv1;
                allSubmitted = list_all (\<lambda>pl. prediction pl \<noteq> None) (players gs)
            in if allSubmitted then emit (ToRoom code PredictionAllSubmitted) srv2 else srv2)"

section \<open>Orders and placements, told without the loops\<close>

text \<open>A comparator is consistent when "not after" is a total preorder.\<close>

definition consistent :: "('a \<Rightarrow> 'a \<Rightarrow> ordering) \<Rightarrow> bool" where
  "consistent cmp \<longleftrightarrow>
     (\<forall>a b. cmp a b = GT \<longrightarrow> cmp b a \<noteq> GT) \<and>
     (\<forall>a b c. cmp a b \<noteq> GT \<and> cmp b c \<noteq> GT \<longrightarrow> cmp a c \<noteq> GT)"

definition hand_key :: "EvaluatedHand \<Rightarrow> int \<times> int \<times> int \<times> int" where
  "hand_key h = (rank_num (rank h), primaryValue h, secondaryValue h, tertiaryValue h)"

fun lex4_less :: "int \<times> int \<times> int \<times> int \<Rightarrow> int \<times> int \<times> int \<times> int \<Rightarrow> bool" where
  "lex4_less (a1, a2, a3, a4) (b1, b2, b3, b4) \<longleftrightarrow>
     a1 < b1 \<or> (a1 = b1 \<and> (a2 < b2 \<or> (a2 = b2 \<and> (a3 < b3 \<or> (a3 = b3 \<and> a4 < b4)))))"

text \<open>Sorted descending: no later hand beats an earlier one.\<close>

abbreviation descending :: "PlayerSelection list \<Rightarrow> bool" where
  "descending \<equiv> sorted_wrt (\<lambda>a b. compareHands (sel_hand a) (sel_hand b) \<ge> 0)"

definition betterCount :: "PlayerSelection list \<Rightarrow> EvaluatedHand \<Rightarrow> nat" where
  "betterCount sels h = length (filter (\<lambda>y. compareHands (sel_hand y) h > 0) sels)"

definition tiedCount :: "PlayerSelection list \<Rightarrow> EvaluatedHand \<Rightarrow> nat" where
  "tiedCount sels h = length (filter (\<lambda>y. compareHands (sel_hand y) h = 0) sels)"

definition loopResult :: "nat \<Rightarrow> nat \<Rightarrow> PlayerSelection list \<Rightarrow> PlayerSelection \<Rightarrow> SetResult" where
  "loopResult n k xs s =
     tiedResult (k + betterCount xs (sel_hand s))
       (js_div (totalPoints n (k + betterCount xs (sel_hand s)) (tiedCount xs (sel_hand s)))
          (of_nat (tiedCount xs (sel_hand s)))) s"

definition spec_points_table :: "nat \<Rightarrow> rat list" where
  "spec_points_table n =
     (if n = 2 then [6, 0]
      else if n = 3 then [6, 3, 0]
      else if n = 4 then [6, 3, 1, 0]
      else if n = 5 then [6, 4, 2, 1, 0]
      else if n = 6 then [6, 4, 3, 2, 1, 0]
      else [])"

definition spec_points :: "nat \<Rightarrow> nat \<Rightarrow> rat" where
  "spec_points n p =
     (if 1 \<le> p \<and> p \<le> length (spec_points_table n) then spec_points_table n ! (p - 1) else 0)"

definition spec_result :: "nat \<Rightarrow> PlayerSelection list \<Rightarrow> PlayerSelection \<Rightarrow> SetResult" where
  "spec_result n sels s =
     (let k = 1 + betterCount sels (sel_hand s);
          t = tiedCount sels (sel_hand s)
      in \<lparr>sr_playerId = sel_playerId s, sr_hand = sel_hand s,
          sr_diceUsed = (case sel_diceUsed s of None \<Rightarrow> [] | Some u \<Rightarrow> u),
          sr_diceValues = (case sel_diceValues s of None \<Rightarrow> [] | Some v \<Rightarrow> v),
          placement = k,
          pointsEarned = sum_list (map (spec_points n) [k ..< k + t]) / of_nat t\<rparr>)"

text \<open>
  The result as the program computes it: the points are the double nearest to the
  quotient.
\<close>

definition double_result :: "nat \<Rightarrow> PlayerSelection list \<Rightarrow> PlayerSelection \<Rightarrow> SetResult" where
  "double_result n sels s =
     (spec_result n sels s)\<lparr>pointsEarned := js_double (pointsEarned (spec_result n sels s))\<rparr>"

definition exampleHand :: "HandRank \<Rightarrow> int \<Rightarrow> string \<Rightarrow> EvaluatedHand" where
  "exampleHand r v d =
     \<lparr>rank = r, primaryValue = v, secondaryValue = 0, tertiaryValue = 0, description = d\<rparr>"

definition exampleTie :: "PlayerSelection list" where
  "exampleTie =
     [\<lparr>sel_playerId = ''p2'', sel_hand = exampleHand STRAIGHT 5 ''Straight 3-4-5'',
       sel_diceUsed = None, sel_diceValues = None\<rparr>,
      \<lparr>sel_playerId = ''p1'', sel_hand = exampleHand TRIPLE 6 ''Triple 6s'',
       sel_diceUsed = None, sel_diceValues = None\<rparr>,
      \<lparr>sel_playerId = ''p3'', sel_hand = exampleHand STRAIGHT 5 ''Straight 3-4-5'',
       sel_diceUsed = None, sel_diceValues = None\<rparr>,
      \<lparr>sel_playerId = ''p4'', sel_hand = exampleHand STRAIGHT 5 ''Straight 3-4-5'',
       sel_diceUsed = None, sel_diceValues = None\<rparr>]"

section \<open>Arrays as heap objects\<close>

text \<open>
  JavaScript arrays are objects: \<open>sort\<close> reorders the array it is called on, while the
  spread \<open>[...xs]\<close> and \<open>map\<close> make new arrays. To say that a routine leaves its arguments
  alone, the turn-order routines are also given on a heap of arrays: an argument is the
  address of an array, and the heap after the call shows what was written.
\<close>

datatype JsArray = PlayerArray "Player list" | StringArray "string list" | RollArray "RollResult list"

record Heap =
  cells :: "nat \<rightharpoonup> JsArray"
  next_ref :: nat

definition alloc :: "JsArray \<Rightarrow> Heap \<Rightarrow> nat \<times> Heap" where
  "alloc a h = (next_ref h, h\<lparr>cells := (cells h)(next_ref h \<mapsto> a), next_ref := Suc (next_ref h)\<rparr>)"

text \<open>Every array of the heap was allocated: its address is below the next free one.\<close>

definition wf_heap :: "Heap \<Rightarrow> bool" where
  "wf_heap h = (\<forall>a\<in>dom (cells h). a < next_ref h)"

text \<open>\<open>[...rollResults].sort(cmp).map(f)\<close>: copy, sort the copy in place, map into a new array.\<close>

definition calculateInitialTurnOrder_heap :: "Heap \<Rightarrow> nat \<Rightarrow> (nat \<times> Heap) option" where
  "calculateInitialTurnOrder_heap h rollResults =
     (case cells h rollResults of
        Some (RollArray rs) \<Rightarrow>
          (case alloc (RollArray rs) h of
             (c, h1) \<Rightarrow>
               let sorted = js_sort (\<lambda>a b. sign_int (roll a - roll b)) rs;
                   h2 = h1\<lparr>cells := (cells h1)(c \<mapsto> RollArray sorted)\<rparr>
               in Some (alloc (StringArray (map rr_playerId sorted)) h2))
      | _ \<Rightarrow> None)"

definition calculateTurnOrder_heap :: "Heap \<Rightarrow> nat \<Rightarrow> nat \<Rightarrow> (nat \<times> Heap) option" where
  "calculateTurnOrder_heap h playersRef originalOrderRef =
     (case (cells h playersRef, cells h originalOrderRef) of
        (Some (PlayerArray ps), Some (StringArray originalOrder)) \<Rightarrow>
          let m = originalOrderMap originalOrder in
          (case alloc (PlayerArray ps) h of
             (c, h1) \<Rightarrow>
               let sorted = js_sort (turnOrderCompare m) ps;
                   h2 = h1\<lparr>cells := (cells h1)(c \<mapsto> PlayerArray sorted)\<rparr>
               in Some (alloc (StringArray (map player_id sorted)) h2))
      | _ \<Rightarrow> None)"

text \<open>
  The position of a player in the round-1 order, \<open>None\<close> for a player the order does not
  list; and the tie-break of the specification: the earlier position first, an unlisted
  player last.
\<close>

definition firstIndex :: "string list \<Rightarrow> string \<Rightarrow> nat" where
  "firstIndex order i = length (takeWhile (\<lambda>x. x \<noteq> i) order)"

definition spec_position :: "string list \<Rightarrow> string \<Rightarrow> nat option" where
  "spec_position order i = (if i \<in> set order then Some (firstIndex order i) else None)"

definition tie_break :: "string list \<Rightarrow> Player \<Rightarrow> Player \<Rightarrow> bool" where
  "tie_break order a b =
     (case (spec_position order (player_id a), spec_position order (player_id b)) of
        (Some i, Some j) \<Rightarrow> i \<le> j
      | (_, None) \<Rightarrow> True
      | (None, Some j) \<Rightarrow> False)"

definition turn_order_le :: "string list \<Rightarrow> Player \<Rightarrow> Player \<Rightarrow> bool" where
  "turn_order_le order a b =
     (cumulativeScore a > cumulativeScore b \<or>
      (cumulativeScore a = cumulativeScore b \<and> tie_break order a b))"

text \<open>One number for the tie-break: the position, or the length of the order if unlisted.\<close>

definition posKey :: "string list \<Rightarrow> Player \<Rightarrow> nat" where
  "posKey order p = firstIndex order (player_id p)"

section \<open>Reachable snapshots\<close>








section \<open>Well-formed selections\<close>


section \<open>Example states\<close>

text \<open>
  A two-player game in round 1: the state in which the first set's selection begins, and
  the state in which its results are revealed after \<open>p1\<close> has played the dice
  \<open>d0, d1, d2\<close> and \<open>p2\<close> the dice \<open>d11, d12, d13\<close>.
\<close>

definition exampleDie :: "string \<Rightarrow> DieColor \<Rightarrow> int \<Rightarrow> bool \<Rightarrow> Die" where
  "exampleDie i c v used =
     \<lparr>die_id = i, die_color = c, die_value = v, isSpent = used,
      isRevealed = (c = WHITE \<or> used)\<rparr>"

definition exampleDice1 :: "bool \<Rightarrow> Die list" where
  "exampleDice1 used =
     [exampleDie ''d0'' WHITE 5 used, exampleDie ''d1'' WHITE 4 used,
      exampleDie ''d2'' WHITE 3 used, exampleDie ''d3'' WHITE 2 False,
      exampleDie ''d4'' WHITE 1 False, exampleDie ''d5'' WHITE 6 False,
      exampleDie ''d6'' WHITE 5 False, exampleDie ''d7'' WHITE 4 False,
      exampleDie ''d8'' WHITE 3 False, exampleDie ''d9'' RED 2 False,
      exampleDie ''d10'' BLUE 1 False]"

definition exampleDice2 :: "bool \<Rightarrow> Die list" where
  "exampleDice2 used =
     [exampleDie ''d11'' WHITE 6 used, exampleDie ''d12'' WHITE 5 used,
      exampleDie ''d13'' WHITE 4 used, exampleDie ''d14'' WHITE 3 False,
      exampleDie ''d15'' WHITE 2 False, exampleDie ''d16'' WHITE 1 False,
      exampleDie ''d17'' WHITE 6 False, exampleDie ''d18'' WHITE 5 False,
      exampleDie ''d19'' WHITE 4 False, exampleDie ''d20'' RED 3 False,
      exampleDie ''d21'' BLUE 2 False]"

definition examplePlayer ::
  "string \<Rightarrow> bool \<Rightarrow> Die list \<Rightarrow> rat \<Rightarrow> PredictionType option \<Rightarrow> Player" where
  "examplePlayer i host ds s1 p =
     \<lparr>player_id = i, player_name = i, socketId = ''s'', dice = ds, cumulativeScore = 0,
      currentRoundScore = s1, set1Score = s1, set2Score = 0, prediction = p,
      isConnected = True, isReady = True, isHost = host\<rparr>"

definition exampleLobby :: GameState where
  "exampleLobby =
     \<lparr>roomCode = ''ABCDEF'', phase = LOBBY,
      players = [examplePlayer ''p1'' True [] 0 None, examplePlayer ''p2'' False [] 0 None],
      config = \<lparr>maxPlayers = 4, totalRounds = 3, turnTimerSeconds = 30\<rparr>,
      currentRound = 0, currentSet = 1, turnOrder = [], currentTurnIndex = 0,
      pendingSelections = Map.empty, setResults = [], roundHistory = [],
      initialRollResults = [], hostId = ''p1'', createdAt = 0\<rparr>"

definition exampleEntropy :: Entropy where
  "exampleEntropy =
     \<lparr>random_src = (\<lambda>n. of_nat ((n * 5 + 2) mod 6) / 6),
      uuid_src = (\<lambda>n. CHR ''d'' # digits10 n)\<rparr>"

definition exampleSelection :: Snapshot where
  "exampleSelection =
     \<lparr>snapshot_value = set_selection_state,
      snapshot_context =
        \<lparr>gameState = exampleLobby
           \<lparr>phase := SET_SELECTION,
            players := [examplePlayer ''p1'' True (exampleDice1 False) 0 (Some ZERO),
                        examplePlayer ''p2'' False (exampleDice2 False) 0 (Some MORE)],
            currentRound := 1, turnOrder := [''p1'', ''p2''],
            initialRollResults := [\<lparr>rr_playerId = ''p1'', roll = 5\<rparr>,
                                   \<lparr>rr_playerId = ''p2'', roll = 7\<rparr>]\<rparr>,
         turnTimerId = None, turnTimeRemaining = 0\<rparr>,
      snapshot_status = Active\<rparr>"

definition exampleResults :: "SetResult list" where
  "exampleResults =
     [\<lparr>sr_playerId = ''p2'',
       sr_hand = \<lparr>rank = STRAIGHT, primaryValue = 6, secondaryValue = 0, tertiaryValue = 0,
                   description = ''Straight 4-5-6''\<rparr>,
       sr_diceUsed = [''d11'', ''d12'', ''d13''],
       sr_diceValues = take 3 (exampleDice2 False), placement = 1, pointsEarned = 6\<rparr>,
      \<lparr>sr_playerId = ''p1'',
       sr_hand = \<lparr>rank = STRAIGHT, primaryValue = 5, secondaryValue = 0, tertiaryValue = 0,
                   description = ''Straight 3-4-5''\<rparr>,
       sr_diceUsed = [''d0'', ''d1'', ''d2''],
       sr_diceValues = take 3 (exampleDice1 False), placement = 2, pointsEarned = 0\<rparr>]"

definition exampleReveal :: Snapshot where
  "exampleReveal =
     \<lparr>snapshot_value = set_reveal_state,
      snapshot_context =
        \<lparr>gameState = exampleLobby
           \<lparr>phase := SET_REVEAL,
            players := [examplePlayer ''p1'' True (exampleDice1 True) 0 (Some ZERO),
                        examplePlayer ''p2'' False (exampleDice2 True) 6 (Some MORE)],
            currentRound := 1, turnOrder := [''p1'', ''p2''], currentTurnIndex := 2,
            pendingSelections :=
              [''p1'' \<mapsto> [''d0'', ''d1'', ''d2''], ''p1:confirmed'' \<mapsto> [''confirmed''],
               ''p2'' \<mapsto> [''d11'', ''d12'', ''d13''], ''p2:confirmed'' \<mapsto> [''confirmed'']],
            setResults := exampleResults,
            initialRollResults := [\<lparr>rr_playerId = ''p1'', roll = 5\<rparr>,
                                   \<lparr>rr_playerId = ''p2'', roll = 7\<rparr>]\<rparr>,
         turnTimerId = None, turnTimeRemaining = 0\<rparr>,
      snapshot_status = Active\<rparr>"

text \<open>
  The lobby with a host who has not set the ready flag, the prediction phase of round 1
  after \<open>p1\<close> has predicted, and a server that runs this game.
\<close>

definition exampleLobbyHostUnready :: GameState where
  "exampleLobbyHostUnready =
     exampleLobby
       \<lparr>players := [(examplePlayer ''p1'' True [] 0 None)\<lparr>isReady := False\<rparr>,
                    examplePlayer ''p2'' False [] 0 None]\<rparr>"

definition examplePredicting :: Snapshot where
  "examplePredicting =
     \<lparr>snapshot_value = prediction_state,
      snapshot_context =
        \<lparr>gameState = (gameState (snapshot_context exampleSelection))
           \<lparr>phase := PREDICTION,
            players := [examplePlayer ''p1'' True (exampleDice1 False) 0 (Some ZERO),
                        examplePlayer ''p2'' False (exampleDice2 False) 0 None]\<rparr>,
         turnTimerId = None, turnTimeRemaining = 0\<rparr>,
      snapshot_status = Active\<rparr>"

definition exampleServer :: Server where
  "exampleServer =
     \<lparr>gameActors = [''ABCDEF'' \<mapsto> examplePredicting],
      redisStore = [''ABCDEF'' \<mapsto> getGameStateFromActor examplePredicting],
      turnTimers = Map.empty,
      predictionTimers = [''ABCDEF'' \<mapsto> PredictionTimer 30],
      resultsAcknowledgements = Map.empty,
      resultsTimeouts = {},
      sent = [],
      entropy = exampleEntropy\<rparr>"

text \<open>Four players, three of them tied, and a heap that holds them and an initial order.\<close>

definition exampleScored :: "Player list" where
  "exampleScored =
     [(examplePlayer ''p3'' False [] 0 None)\<lparr>cumulativeScore := 10\<rparr>,
      (examplePlayer ''p2'' False [] 0 None)\<lparr>cumulativeScore := 10\<rparr>,
      (examplePlayer ''p1'' True [] 0 None)\<lparr>cumulativeScore := 10\<rparr>,
      (examplePlayer ''p4'' False [] 0 None)\<lparr>cumulativeScore := 41 / 3\<rparr>]"

definition exampleHeap :: Heap where
  "exampleHeap =
     \<lparr>cells = [0 \<mapsto> PlayerArray exampleScored, 1 \<mapsto> StringArray [''p1'', ''p2'']],
      next_ref = 2\<rparr>"

section \<open>Theorems\<close>

subsection \<open>JavaScript numbers\<close>

lemma round_half_even_nearest: "\<bar>y - of_int (round_half_even y)\<bar> \<le> \<bar>y - of_int k\<bar>"
proof -
  define f where "f = \<lfloor>y\<rfloor>"
  define d where "d = y - of_int f"
  have d: "0 \<le> d" "d < 1" unfolding d_def f_def by linarith+
  have y: "y = of_int f + d" by (simp add: d_def)
  have r: "\<bar>y - of_int (round_half_even y)\<bar> \<le> d" "\<bar>y - of_int (round_half_even y)\<bar> \<le> 1 - d"
    using d unfolding round_half_even_def Let_def f_def[symmetric] by (auto simp: d_def)
  show ?thesis
  proof (cases "k \<le> f")
    case True
    then have "(of_int k :: rat) \<le> of_int f" by simp
    then have "d \<le> \<bar>y - of_int k\<bar>" using d by (simp add: y)
    with r(1) show ?thesis by simp
  next
    case False
    then have "f + 1 \<le> k" by simp
    then have "(of_int f :: rat) + 1 \<le> of_int k" by (metis of_int_1 of_int_add of_int_le_iff)
    then have "1 - d \<le> \<bar>y - of_int k\<bar>" using d by (simp add: y)
    with r(2) show ?thesis by simp
  qed
qed

lemma round_half_even_bound:
  assumes "\<bar>y\<bar> \<le> of_int N"
  shows "\<bar>round_half_even y\<bar> \<le> N"
proof -
  let ?r = "round_half_even y"
  have 1: "\<bar>y - of_int ?r\<bar> \<le> \<bar>y - of_int N\<bar>" by (rule round_half_even_nearest)
  have 2: "\<bar>y - of_int ?r\<bar> \<le> \<bar>y - of_int (- N)\<bar>" by (rule round_half_even_nearest)
  have "(of_int ?r :: rat) \<le> of_int N" using 1 assms by (simp add: abs_if split: if_splits)
  moreover have "(of_int (- N) :: rat) \<le> of_int ?r" using 2 assms by (simp add: abs_if split: if_splits)
  ultimately have "?r \<le> N" "- N \<le> ?r" by (simp_all only: of_int_le_iff)
  then show ?thesis by simp
qed

lemma two_powi_pos [simp]: "0 < (2::rat) powi n"
  by (simp add: zero_less_power_int)

lemma two_powi_add: "(2::rat) powi (m + n) = 2 powi m * 2 powi n"
  by (simp add: power_int_add)

lemma two_powi_nat: "0 \<le> n \<Longrightarrow> (2::rat) powi n = of_int (2 ^ nat n)"
  by (simp add: power_int_def)

lemma bitlen_bounds_rat:
  assumes "0 < a"
  shows "(2::rat) powi (bitlen a - 1) \<le> of_int a" "of_int a < (2::rat) powi bitlen a"
proof -
  from bitlen_bounds[OF assms] have b: "2 ^ nat (bitlen a - 1) \<le> a" "a < 2 ^ nat (bitlen a)"
    by simp_all
  have ge: "1 \<le> bitlen a" using assms by (auto simp: bitlen_alt_def)
  have "(2::rat) powi (bitlen a - 1) = of_int (2 ^ nat (bitlen a - 1))"
    using ge by (intro two_powi_nat) simp
  also have "\<dots> \<le> of_int a" using b(1) by (simp only: of_int_le_iff)
  finally show "(2::rat) powi (bitlen a - 1) \<le> of_int a" .
  have "of_int a < (of_int (2 ^ nat (bitlen a)) :: rat)" using b(2) by (simp only: of_int_less_iff)
  also have "\<dots> = 2 powi bitlen a" using ge by (subst two_powi_nat) simp_all
  finally show "of_int a < (2::rat) powi bitlen a" .
qed

text \<open>\<open>binade\<close> is the exponent of the binade.\<close>

lemma binade_bounds:
  assumes "0 < x"
  shows "2 powi binade x \<le> x" "x < 2 powi (binade x + 1)"
proof -
  obtain a b where q: "quotient_of x = (a, b)" by (cases "quotient_of x")
  have b: "0 < b" using q by (rule quotient_of_denom_pos)
  have x: "x = of_int a / of_int b" using q by (rule quotient_of_div)
  have a: "0 < a" using assms b unfolding x by (simp add: zero_less_divide_iff)
  define d where "d = bitlen a - bitlen b"
  note A = bitlen_bounds_rat[OF a] and B = bitlen_bounds_rat[OF b]
  have bp: "(0::rat) < of_int b" using b by simp
  have "x < 2 powi bitlen a / 2 powi (bitlen b - 1)"
    unfolding x using A(2) B(1) a bp
    by (intro frac_less) simp_all
  also have "\<dots> = 2 powi (d + 1)"
    by (simp add: d_def power_int_diff[symmetric] algebra_simps)
  finally have up: "x < 2 powi (d + 1)" .
  have "2 powi (d - 1) = (2::rat) powi (bitlen a - 1) / 2 powi bitlen b"
    by (simp add: d_def power_int_diff[symmetric] algebra_simps)
  also have "\<dots> \<le> x"
    unfolding x using A(1) B(2) bp a
    by (intro frac_le) simp_all
  finally have lo: "2 powi (d - 1) \<le> x" .
  have e: "binade x = (if 2 powi d \<le> x then d else d - 1)"
    by (simp add: binade_def q d_def Let_def)
  show "2 powi binade x \<le> x" using lo by (simp add: e)
  show "x < 2 powi (binade x + 1)" using up by (auto simp: e)
qed

lemma quantum_pos [simp]: "0 < quantum x"
  by (simp add: quantum_def)

lemma js_double_quantum:
  "x \<noteq> 0 \<Longrightarrow> js_double x = of_int (round_half_even (x / quantum x)) * quantum x"
  by (simp add: js_double_def)

text \<open>A double is at least as near as every multiple of the quantum.\<close>

lemma js_double_nearest_multiple:
  assumes "x \<noteq> 0"
  shows "\<bar>x - js_double x\<bar> \<le> \<bar>x - of_int k * quantum x\<bar>"
proof -
  let ?q = "quantum x"
  have "\<bar>x - js_double x\<bar> = \<bar>x / ?q - of_int (round_half_even (x / ?q))\<bar> * ?q"
    using quantum_pos[of x]
    by (simp add: js_double_quantum[OF assms] abs_mult[symmetric] field_simps
        del: quantum_pos)
  also have "\<dots> \<le> \<bar>x / ?q - of_int k\<bar> * ?q"
    by (intro mult_right_mono round_half_even_nearest) (simp add: less_imp_le)
  also have "\<dots> = \<bar>x - of_int k * ?q\<bar>"
    using quantum_pos[of x]
    by (simp add: abs_mult[symmetric] field_simps del: quantum_pos)
  finally show ?thesis .
qed

lemma two_powi_expo: "2 powi expo x = of_int (2 ^ 52) * quantum x"
proof -
  have "expo x = 52 + (expo x - 52)" by simp
  then have "(2::rat) powi expo x = 2 powi (52 + (expo x - 52))" by (rule arg_cong)
  also have "\<dots> = 2 powi 52 * 2 powi (expo x - 52)" by (rule two_powi_add)
  finally show ?thesis by (simp add: quantum_def)
qed

lemma js_double_bound:
  assumes "z \<noteq> 0"
  shows "\<bar>js_double z\<bar> \<le> 2 powi (expo z + 1)"
proof -
  let ?q = "quantum z"
  have zp: "0 < \<bar>z\<bar>" using assms by simp
  have "\<bar>z\<bar> < 2 powi (binade \<bar>z\<bar> + 1)" using binade_bounds(2)[OF zp] .
  also have "\<dots> \<le> 2 powi (expo z + 1)"
    by (intro power_int_increasing) (simp_all add: expo_def)
  finally have z: "\<bar>z\<bar> < 2 powi (expo z + 1)" .
  have e: "(2::rat) powi (expo z + 1) = of_int (2 ^ 53) * ?q"
  proof -
    have "expo z + 1 = 53 + (expo z - 52)" by simp
    then have "(2::rat) powi (expo z + 1) = 2 powi (53 + (expo z - 52))" by (rule arg_cong)
    also have "\<dots> = 2 powi 53 * 2 powi (expo z - 52)" by (rule two_powi_add)
    finally show ?thesis by (simp add: quantum_def)
  qed
  have "\<bar>z / ?q\<bar> = \<bar>z\<bar> / ?q" by (simp add: abs_divide abs_of_pos)
  also have "\<dots> \<le> of_int (2 ^ 53)"
    using z quantum_pos[of z] unfolding e by (simp add: field_simps del: quantum_pos)
  finally have "\<bar>round_half_even (z / ?q)\<bar> \<le> 2 ^ 53" by (rule round_half_even_bound)
  then have "\<bar>of_int (round_half_even (z / ?q)) :: rat\<bar> \<le> of_int (2 ^ 53)"
    by (metis of_int_abs of_int_le_iff)
  then have "\<bar>of_int (round_half_even (z / ?q)) :: rat\<bar> * ?q \<le> of_int (2 ^ 53) * ?q"
    by (intro mult_right_mono) (simp_all add: less_imp_le)
  then show ?thesis
    using quantum_pos[of z]
    by (simp add: js_double_quantum[OF assms] e abs_mult del: quantum_pos)
qed

text \<open>
  Rounding goes to a nearest double: no double, that is no value of \<open>js_double\<close>, is
  nearer. So rounding leaves a double as it is, and it keeps the order.
\<close>

lemma js_double_nearest: "\<bar>x - js_double x\<bar> \<le> \<bar>x - js_double z\<bar>"
proof (cases "x = 0")
  case True
  then show ?thesis by (simp add: js_double_def)
next
  case x: False
  show ?thesis
  proof (cases "z = 0")
    case True
    then have "js_double z = of_int 0 * quantum x" by (simp add: js_double_def)
    then show ?thesis using js_double_nearest_multiple[OF x, of 0] by simp
  next
    case z: False
    show ?thesis
    proof (cases "expo x \<le> expo z")
      case True
      define m where "m = round_half_even (z / quantum z)"
      have "quantum z = 2 powi ((expo z - expo x) + (expo x - 52))"
        by (simp add: quantum_def)
      also have "\<dots> = 2 powi (expo z - expo x) * quantum x"
        unfolding quantum_def by (rule two_powi_add)
      also have "(2::rat) powi (expo z - expo x) = of_int (2 ^ nat (expo z - expo x))"
        using True by (intro two_powi_nat) simp
      finally have "js_double z = of_int (m * 2 ^ nat (expo z - expo x)) * quantum x"
        by (simp add: js_double_quantum[OF z] m_def)
      then show ?thesis by (simp only: js_double_nearest_multiple[OF x])
    next
      case False
      then have lt: "expo z + 1 \<le> expo x" by simp
      then have "- 1022 < expo x" by (simp add: expo_def)
      then have ex: "expo x = binade \<bar>x\<bar>" by (simp add: expo_def)
      have xp: "0 < \<bar>x\<bar>" using x by simp
      have lo: "2 powi expo x \<le> \<bar>x\<bar>" unfolding ex using binade_bounds(1)[OF xp] .
      have "\<bar>js_double z\<bar> \<le> 2 powi (expo z + 1)" using z by (rule js_double_bound)
      also have "\<dots> \<le> 2 powi expo x" using lt by (intro power_int_increasing) simp_all
      finally have dz: "\<bar>js_double z\<bar> \<le> 2 powi expo x" .
      show ?thesis
      proof (cases "0 < x")
        case True
        have "\<bar>x - js_double x\<bar> \<le> \<bar>x - of_int (2 ^ 52) * quantum x\<bar>"
          using x by (rule js_double_nearest_multiple)
        then show ?thesis using lo dz True unfolding two_powi_expo by linarith
      next
        case False
        have "\<bar>x - js_double x\<bar> \<le> \<bar>x - of_int (- (2 ^ 52)) * quantum x\<bar>"
          using x by (rule js_double_nearest_multiple)
        then show ?thesis using lo dz False x unfolding two_powi_expo by (simp add: abs_if split: if_splits)
      qed
    qed
  qed
qed

lemma js_double_idem [simp]: "js_double (js_double z) = js_double z"
  using js_double_nearest[of "js_double z" z] by simp


lemma js_double_0 [simp]: "js_double 0 = 0"
  by (simp add: js_double_def)


text \<open>Integers below \<open>2 ^ 53\<close> are doubles.\<close>

lemma js_double_of_int:
  assumes "\<bar>n\<bar> < 2 ^ 53"
  shows "js_double (of_int n) = of_int n"
proof (cases "n = 0")
  case True
  then show ?thesis by simp
next
  case False
  let ?x = "of_int n :: rat"
  have x: "?x \<noteq> 0" using False by simp
  have xp: "0 < \<bar>?x\<bar>" using x by simp
  have "2 powi binade \<bar>?x\<bar> \<le> \<bar>?x\<bar>" using binade_bounds(1)[OF xp] .
  also have "\<bar>?x\<bar> < of_int (2 ^ 53)" using assms by (metis of_int_abs of_int_less_iff)
  also have "(of_int (2 ^ 53) :: rat) = 2 powi 53" by simp
  finally have "binade \<bar>?x\<bar> < 53" by (intro power_int_le_imp_less_exp[of "2::rat"]) simp_all
  then have e: "expo ?x - 52 \<le> 0" by (simp add: expo_def)
  define k where "k = nat (- (expo ?x - 52))"
  have "quantum ?x = 2 powi (- int k)" using e by (simp add: quantum_def k_def)
  then have q: "quantum ?x = 1 / 2 ^ k" by (simp add: power_int_minus_divide)
  have "of_int (n * 2 ^ k) * quantum ?x = ?x" by (simp add: q)
  with js_double_nearest_multiple[OF x, of "n * 2 ^ k"]
  have "\<bar>?x - js_double ?x\<bar> \<le> \<bar>?x - ?x\<bar>" by (simp only:)
  then show ?thesis by simp
qed

lemma js_double_of_nat: "n < 2 ^ 53 \<Longrightarrow> js_double (of_nat n) = of_nat n"
  using js_double_of_int[of "int n"] by simp



lemma js_add_double [simp]: "js_double (js_add a b) = js_add a b"
  by (simp add: js_add_def)

lemma PREDICTION_RANGES_simps:
  "PREDICTION_RANGES_BY_PLAYER_COUNT 2 =
     Some (\<lambda>p. case p of ZERO \<Rightarrow> (0, 0) | MIN' \<Rightarrow> (- 1, - 1) | MORE \<Rightarrow> (6, 6) | MAX' \<Rightarrow> (12, 12))"
  "PREDICTION_RANGES_BY_PLAYER_COUNT 3 =
     Some (\<lambda>p. case p of ZERO \<Rightarrow> (0, 0) | MIN' \<Rightarrow> (3, 3) | MORE \<Rightarrow> (6, 9) | MAX' \<Rightarrow> (10, 12))"
  "PREDICTION_RANGES_BY_PLAYER_COUNT 4 =
     Some (\<lambda>p. case p of ZERO \<Rightarrow> (0, 0) | MIN' \<Rightarrow> (1, 4) | MORE \<Rightarrow> (6, 9) | MAX' \<Rightarrow> (10, 12))"
  "PREDICTION_RANGES_BY_PLAYER_COUNT 5 =
     Some (\<lambda>p. case p of ZERO \<Rightarrow> (0, 0) | MIN' \<Rightarrow> (1, 4) | MORE \<Rightarrow> (5, 8) | MAX' \<Rightarrow> (10, 12))"
  "PREDICTION_RANGES_BY_PLAYER_COUNT 6 =
     Some (\<lambda>p. case p of ZERO \<Rightarrow> (0, 0) | MIN' \<Rightarrow> (1, 4) | MORE \<Rightarrow> (5, 9) | MAX' \<Rightarrow> (10, 12))"
  by (simp_all add: PREDICTION_RANGES_BY_PLAYER_COUNT_def)

lemma player_count_cases:
  assumes "2 \<le> (n::nat)" "n \<le> 6"
  obtains "n = 2" | "n = 3" | "n = 4" | "n = 5" | "n = 6"
  using assms by arith

text \<open>
  C4. For every prediction type, integer round total in 0..12 and player count in 2..6,
  \<open>calculatePredictionBonus\<close> returns 40 for ZERO when the total lies in ZERO's closed
  range, the round total itself for MIN, MORE and MAX when the total lies in that
  prediction's closed range (the table of the specification), and 0 otherwise.
\<close>

theorem calculatePredictionBonus_table:
  assumes "2 \<le> n" "n \<le> 6" "0 \<le> tot" "tot \<le> 12"
  shows "calculatePredictionBonus p (of_int tot) n =
           (if spec_in_range n p tot then (if p = ZERO then 40 else of_int tot) else 0)"
proof -
  from assms(1,2) show ?thesis
  proof (cases n rule: player_count_cases)
    case 1
    then show ?thesis using assms(3,4)
      by (cases p)
        (auto simp: calculatePredictionBonus_def getPredictionRange_def PREDICTION_RANGES_simps
          spec_in_range_def PREDICTION_ZERO_BONUS_def)
  next
    case 2
    then show ?thesis using assms(3,4)
      by (cases p)
        (auto simp: calculatePredictionBonus_def getPredictionRange_def PREDICTION_RANGES_simps
          spec_in_range_def PREDICTION_ZERO_BONUS_def)
  next
    case 3
    then show ?thesis using assms(3,4)
      by (cases p)
        (auto simp: calculatePredictionBonus_def getPredictionRange_def PREDICTION_RANGES_simps
          spec_in_range_def PREDICTION_ZERO_BONUS_def)
  next
    case 4
    then show ?thesis using assms(3,4)
      by (cases p)
        (auto simp: calculatePredictionBonus_def getPredictionRange_def PREDICTION_RANGES_simps
          spec_in_range_def PREDICTION_ZERO_BONUS_def)
  next
    case 5
    then show ?thesis using assms(3,4)
      by (cases p)
        (auto simp: calculatePredictionBonus_def getPredictionRange_def PREDICTION_RANGES_simps
          spec_in_range_def PREDICTION_ZERO_BONUS_def)
  qed
qed

theorem calculatePredictionBonus_table_witness:
  "calculatePredictionBonus MORE 7 4 = 7 \<and> calculatePredictionBonus MIN' 0 2 = 0
     \<and> calculatePredictionBonus ZERO 0 6 = 40"
  using calculatePredictionBonus_table [of 4 7 MORE]
    calculatePredictionBonus_table [of 2 0 MIN']
    calculatePredictionBonus_table [of 6 0 ZERO]
  by (simp add: spec_in_range_def)

subsection \<open>The hand evaluator\<close>

lemma insort_js_int: "insort_js (\<lambda>a b. sign_int (a - b)) (x::int) xs = insort x xs"
  by (induction xs) (auto simp: sign_int_def)

lemma js_sort_int: "js_sort (\<lambda>a b. sign_int (a - b)) (xs::int list) = sort xs"
  by (induction xs) (simp_all add: js_sort_def insort_js_int)

lemma length3_cases:
  assumes "length xs = 3"
  obtains a b c where "xs = [a, b, c]"
  using assms by (cases xs; cases "tl xs"; cases "tl (tl xs)") auto

text \<open>
  C2. For every list of exactly 3 dice with faces 1..6, \<open>evaluateHand\<close>, with the faces
  sorted ascending as (low, mid, high), returns TRIPLE with primary = the value when all
  three are equal; else STRAIGHT with primary = high when they are consecutive; else
  DOUBLE with primary = low and secondary = high when low = mid; else DOUBLE with
  primary = high and secondary = low when mid = high; else SINGLE with primary = high,
  secondary = mid, tertiary = low. The straights are exactly 1-2-3, 2-3-4, 3-4-5 and
  4-5-6: 5-6-1 and 1-3-5 are SINGLE.
\<close>

theorem evaluateHand_ranks:
  assumes "length ds = 3" and "\<forall>d\<in>set ds. 1 \<le> die_value d \<and> die_value d \<le> 6"
  shows "\<exists>low mid high h.
           sort (map die_value ds) = [low, mid, high] \<and> evaluateHand ds = Inr h \<and>
           (if low = mid \<and> mid = high then
              rank h = TRIPLE \<and> primaryValue h = low
            else if mid = low + 1 \<and> high = mid + 1 then
              rank h = STRAIGHT \<and> primaryValue h = high
            else if low = mid then
              rank h = DOUBLE \<and> primaryValue h = low \<and> secondaryValue h = high
            else if mid = high then
              rank h = DOUBLE \<and> primaryValue h = high \<and> secondaryValue h = low
            else
              rank h = SINGLE \<and> primaryValue h = high \<and> secondaryValue h = mid \<and>
              tertiaryValue h = low) \<and>
           (rank h = STRAIGHT \<longleftrightarrow>
              [low, mid, high] \<in> {[1, 2, 3], [2, 3, 4], [3, 4, 5], [4, 5, 6]}) \<and>
           ([low, mid, high] = [1, 5, 6] \<longrightarrow> rank h = SINGLE) \<and>
           ([low, mid, high] = [1, 3, 5] \<longrightarrow> rank h = SINGLE)"
proof -
  from assms(1) obtain a b c where ds: "ds = [a, b, c]" by (rule length3_cases)
  define x y z where "x = die_value a" and "y = die_value b" and "z = die_value c"
  have rng: "1 \<le> x" "x \<le> 6" "1 \<le> y" "y \<le> 6" "1 \<le> z" "z \<le> 6"
    using assms(2) ds by (simp_all add: x_def y_def z_def)
  obtain low mid high where s: "sort [x, y, z] = [low, mid, high]"
    and ord: "low \<le> mid" "mid \<le> high" and mem: "{low, mid, high} = {x, y, z}"
    by (cases "x \<le> y"; cases "y \<le> z"; cases "x \<le> z") (auto simp: insort_is_Cons)
  have r: "1 \<le> low" "high \<le> 6" using rng mem by auto
  show ?thesis
    apply (rule exI[of _ low], rule exI[of _ mid], rule exI[of _ high])
    using s ord r
    by (auto simp: ds evaluateHand_def js_sort_int x_def y_def z_def Let_def)
qed

theorem evaluateHand_ranks_witness:
  "\<exists>h. evaluateHand
          [\<lparr>die_id = ''a'', die_color = WHITE, die_value = 5, isSpent = False, isRevealed = True\<rparr>,
           \<lparr>die_id = ''b'', die_color = RED, die_value = 6, isSpent = False, isRevealed = False\<rparr>,
           \<lparr>die_id = ''c'', die_color = WHITE, die_value = 1, isSpent = False, isRevealed = True\<rparr>]
          = Inr h \<and>
        rank h = SINGLE \<and> primaryValue h = 6 \<and> secondaryValue h = 5 \<and> tertiaryValue h = 1"
  using evaluateHand_ranks
    [of "[\<lparr>die_id = ''a'', die_color = WHITE, die_value = 5, isSpent = False, isRevealed = True\<rparr>,
          \<lparr>die_id = ''b'', die_color = RED, die_value = 6, isSpent = False, isRevealed = False\<rparr>,
          \<lparr>die_id = ''c'', die_color = WHITE, die_value = 1, isSpent = False, isRevealed = True\<rparr>]"]
  by auto


subsection \<open>The state machine\<close>

lemma settle_inactive: "snapshot_status s \<noteq> Active \<Longrightarrow> settle s e = (Inr s, e)"
  by (simp add: settle.simps)

lemma allSelectionsConfirmed_empty:
  "players (gameState ctx) \<noteq> [] \<Longrightarrow> pendingSelections (gameState ctx) = Map.empty \<Longrightarrow>
   \<not> allSelectionsConfirmed ctx"
  by (cases "players (gameState ctx)") (auto simp: allSelectionsConfirmed_def)

lemma settle_rest:
  "always (snapshot_value s) (snapshot_context s) = None \<Longrightarrow> settle s e = (Inr s, e)"
  by (simp add: settle.simps)

lemma send_NEXT_SET_set1:
  assumes "snapshot_value s = set_reveal_state" "snapshot_status s = Active"
    and "currentSet (gameState (snapshot_context s)) = 1"
    and "players (gameState (snapshot_context s)) \<noteq> []"
  shows "send NEXT_SET (s, e) =
           (\<lparr>snapshot_value = set_selection_state,
             snapshot_context = setPhase SET_SELECTION (advanceSet (snapshot_context s)),
             snapshot_status = Active\<rparr>, e)"
proof -
  let ?c = "setPhase SET_SELECTION (advanceSet (snapshot_context s))"
  have "\<not> allSelectionsConfirmed ?c"
    by (rule allSelectionsConfirmed_empty)
      (use assms(4) in \<open>simp_all add: setPhase_def advanceSet_def Let_def\<close>)
  then show ?thesis
    using assms(1-3)
    by (simp add: send_def isSet1_def microstep_def pure_action_def settle_rest)
qed

text \<open>
  What \<open>NEXT_SET\<close> does after set 1: the set number, the turn index, the pending selections
  and the phase are as C5 says, and with a non-empty round history the set results go into
  \<open>set1Results\<close> of its last entry.
\<close>

lemma NEXT_SET_set1_fields:
  assumes "snapshot_value s = set_reveal_state" "snapshot_status s = Active"
    and "currentSet (gameState (snapshot_context s)) = 1"
    and "players (gameState (snapshot_context s)) \<noteq> []"
    and "send NEXT_SET (s, e) = (s1, e1)"
  shows "snapshot_value s1 = set_selection_state"
    and "phase (gameState (snapshot_context s1)) = SET_SELECTION"
    and "currentSet (gameState (snapshot_context s1)) = 2"
    and "currentTurnIndex (gameState (snapshot_context s1)) = 0"
    and "pendingSelections (gameState (snapshot_context s1)) = Map.empty"
    and "roundHistory (gameState (snapshot_context s)) \<noteq> [] \<Longrightarrow>
         roundHistory (gameState (snapshot_context s1)) =
           butlast (roundHistory (gameState (snapshot_context s))) @
             [(last (roundHistory (gameState (snapshot_context s))))
                \<lparr>set1Results := setResults (gameState (snapshot_context s))\<rparr>]"
    and "roundHistory (gameState (snapshot_context s)) = [] \<Longrightarrow>
         roundHistory (gameState (snapshot_context s1)) = []"
  using assms(5) unfolding send_NEXT_SET_set1[OF assms(1-4)]
  by (auto simp: setPhase_def advanceSet_def Let_def list_update_append1
      simp flip: butlast_conv_take
      intro: nth_equalityI
      simp: nth_append nth_butlast last_conv_nth nth_list_update)

text \<open>
  C5. In the SET_REVEAL phase with \<open>currentSet = 1\<close>, \<open>NEXT_SET\<close> is to store the set
  results in \<open>set1Results\<close> of the last entry of \<open>roundHistory\<close>, set \<open>currentSet\<close> to 2,
  reset \<open>currentTurnIndex\<close>, clear \<open>pendingSelections\<close> and go to SET_SELECTION. In round 1
  the history is still empty: the code then stores the results nowhere and discards them.
\<close>

theorem NEXT_SET_round1_discards_results:
  "snapshot_value exampleReveal = set_reveal_state \<and>
   currentRound (gameState (snapshot_context exampleReveal)) = 1 \<and>
   currentSet (gameState (snapshot_context exampleReveal)) = 1 \<and>
   setResults (gameState (snapshot_context exampleReveal)) = exampleResults \<and>
   roundHistory (gameState (snapshot_context exampleReveal)) = [] \<and>
   snapshot_value (fst (send NEXT_SET (exampleReveal, exampleEntropy))) = set_selection_state \<and>
   currentSet (getGameStateFromActor (fst (send NEXT_SET (exampleReveal, exampleEntropy)))) = 2 \<and>
   roundHistory (getGameStateFromActor (fst (send NEXT_SET (exampleReveal, exampleEntropy)))) = [] \<and>
   setResults (getGameStateFromActor (fst (send NEXT_SET (exampleReveal, exampleEntropy)))) = []"
proof -
  have "send NEXT_SET (exampleReveal, exampleEntropy) =
          (\<lparr>snapshot_value = set_selection_state,
            snapshot_context = setPhase SET_SELECTION (advanceSet (snapshot_context exampleReveal)),
            snapshot_status = Active\<rparr>, exampleEntropy)"
    by (rule send_NEXT_SET_set1) (simp_all add: exampleReveal_def exampleLobby_def)
  then show ?thesis
    by (simp add: getGameStateFromActor_def setPhase_def advanceSet_def Let_def
        exampleReveal_def exampleLobby_def)
qed










lemma confirmedKey_neq [simp]: "confirmedKey c \<noteq> c" "c \<noteq> confirmedKey c"
  by (auto simp: confirmedKey_def)



subsection \<open>The room service and the game service\<close>

text \<open>
  C10. \<open>canStartGame\<close> reports \<open>canStart = true\<close> exactly when the room exists, its phase
  is LOBBY, it has at least 2 players and every player has \<open>isReady\<close> set or is the host.
  The host is exempt from the readiness requirement: a game can start while the host's
  own ready flag is false.
\<close>

theorem canStartGame_iff:
  "(canStart (canStartGame st code) \<longleftrightarrow>
      (\<exists>gs. st code = Some gs \<and> phase gs = LOBBY \<and> 2 \<le> length (players gs) \<and>
            (\<forall>p\<in>set (players gs). isReady p \<or> isHost p))) \<and>
   (\<exists>st0 code0 gs0 h. st0 code0 = Some gs0 \<and> h \<in> set (players gs0) \<and> isHost h \<and>
       \<not> isReady h \<and> canStart (canStartGame st0 code0))"
proof
  show "canStart (canStartGame st code) \<longleftrightarrow>
      (\<exists>gs. st code = Some gs \<and> phase gs = LOBBY \<and> 2 \<le> length (players gs) \<and>
            (\<forall>p\<in>set (players gs). isReady p \<or> isHost p))"
    by (auto simp: canStartGame_def MIN_PLAYERS_def Let_def list_all_iff split: option.splits)
  have "canStart (canStartGame [''ABCDEF'' \<mapsto> exampleLobbyHostUnready] ''ABCDEF'')"
    by (simp add: canStartGame_def MIN_PLAYERS_def exampleLobbyHostUnready_def exampleLobby_def
        examplePlayer_def)
  moreover have "(examplePlayer ''p1'' True [] 0 None)\<lparr>isReady := False\<rparr>
      \<in> set (players exampleLobbyHostUnready)"
    by (simp add: exampleLobbyHostUnready_def)
  ultimately show "\<exists>st0 code0 gs0 h. st0 code0 = Some gs0 \<and> h \<in> set (players gs0) \<and> isHost h \<and>
       \<not> isReady h \<and> canStart (canStartGame st0 code0)"
    by (intro exI[of _ "[''ABCDEF'' \<mapsto> exampleLobbyHostUnready]"] exI[of _ "''ABCDEF''"]
        exI[of _ exampleLobbyHostUnready]
        exI[of _ "(examplePlayer ''p1'' True [] 0 None)\<lparr>isReady := False\<rparr>"])
      (simp add: examplePlayer_def)
qed

theorem canStartGame_iff_witness:
  "canStart (canStartGame [''ABCDEF'' \<mapsto> exampleLobbyHostUnready] ''ABCDEF'') \<and>
   \<not> isReady (hd (players exampleLobbyHostUnready)) \<and>
   isHost (hd (players exampleLobbyHostUnready)) \<and>
   \<not> canStart (canStartGame [''ABCDEF'' \<mapsto> exampleLobbyHostUnready] ''XYZXYZ'')"
  using canStartGame_iff [of "[''ABCDEF'' \<mapsto> exampleLobbyHostUnready]" "''ABCDEF''"]
    canStartGame_iff [of "[''ABCDEF'' \<mapsto> exampleLobbyHostUnready]" "''XYZXYZ''"]
  by (simp add: exampleLobbyHostUnready_def exampleLobby_def examplePlayer_def)

text \<open>
  C9. In the PREDICTION phase, a \<open>SUBMIT_PREDICTION\<close> by a player whose prediction is
  already set leaves the game state unchanged (the actor, the store and the timers of the
  server stay as they are) and surfaces the error \<open>PREDICTION_ALREADY_SUBMITTED\<close> to the
  calling client only: the one message the server sends goes to that client's socket.
\<close>

theorem submitPrediction_twice_rejected:
  assumes "gameActors srv code = Some actor" and "snapshot_value actor = prediction_state"
    and "find (\<lambda>pl. player_id pl = playerId) (players (gameState (snapshot_context actor)))
           = Some player"
    and "prediction player \<noteq> None"
    and "socket_playerId client = Some playerId" and "socket_roomCode client = Some code"
    and "playerId \<noteq> []" and "code \<noteq> []"
  shows "submitPrediction code playerId p srv =
           (Inl \<lparr>error_code = ''PREDICTION_ALREADY_SUBMITTED'',
                 error_message = ''Prediction already submitted''\<rparr>, srv) \<and>
         handlePredictionSubmit client p srv =
           srv\<lparr>sent := sent srv @
             [ToClient (RoomError ''Prediction already submitted''
                          ''PREDICTION_ALREADY_SUBMITTED'')]\<rparr>"
proof -
  have 1: "submitPrediction code playerId p srv =
           (Inl \<lparr>error_code = ''PREDICTION_ALREADY_SUBMITTED'',
                 error_message = ''Prediction already submitted''\<rparr>, srv)"
    using assms(1-4) by (simp add: submitPrediction_def)
  have 2: "\<not> falsy (socket_playerId client)" "\<not> falsy (socket_roomCode client)"
    using assms(5-8) by (simp_all add: falsy_def)
  show ?thesis
    using 1 2 assms(5,6) by (simp add: handlePredictionSubmit_def emit_def)
qed

theorem submitPrediction_twice_rejected_witness:
  "submitPrediction ''ABCDEF'' ''p1'' MORE exampleServer =
     (Inl \<lparr>error_code = ''PREDICTION_ALREADY_SUBMITTED'',
           error_message = ''Prediction already submitted''\<rparr>, exampleServer) \<and>
   handlePredictionSubmit \<lparr>socket_playerId = Some ''p1'', socket_roomCode = Some ''ABCDEF''\<rparr>
       MORE exampleServer =
     exampleServer\<lparr>sent :=
       [ToClient (RoomError ''Prediction already submitted'' ''PREDICTION_ALREADY_SUBMITTED'')]\<rparr>"
  using submitPrediction_twice_rejected
    [of exampleServer "''ABCDEF''" examplePredicting "''p1''"
       "examplePlayer ''p1'' True (exampleDice1 False) 0 (Some ZERO)"
       "\<lparr>socket_playerId = Some ''p1'', socket_roomCode = Some ''ABCDEF''\<rparr>" MORE]
  by (simp add: exampleServer_def examplePredicting_def examplePlayer_def)

subsection \<open>Sorting\<close>

lemma mset_insort_js: "mset (insort_js cmp x xs) = add_mset x (mset xs)"
  by (induction xs) auto

lemma mset_js_sort: "mset (js_sort cmp xs) = mset xs"
  by (induction xs) (simp_all add: js_sort_def mset_insort_js)

lemma set_insort_js: "set (insort_js cmp x xs) = insert x (set xs)"
  by (induction xs) auto

lemma length_js_sort: "length (js_sort cmp xs) = length xs"
proof -
  have "size (mset (js_sort cmp xs)) = size (mset xs)" by (simp only: mset_js_sort)
  then show ?thesis by simp
qed

lemma consistentD1: "consistent cmp \<Longrightarrow> cmp a b = GT \<Longrightarrow> cmp b a \<noteq> GT"
  unfolding consistent_def by blast

lemma consistentD2: "consistent cmp \<Longrightarrow> cmp a b \<noteq> GT \<Longrightarrow> cmp b c \<noteq> GT \<Longrightarrow> cmp a c \<noteq> GT"
  unfolding consistent_def by blast

lemma sorted_wrt_insort_js:
  assumes "consistent cmp" "sorted_wrt (\<lambda>a b. cmp a b \<noteq> GT) xs"
  shows "sorted_wrt (\<lambda>a b. cmp a b \<noteq> GT) (insort_js cmp x xs)"
  using assms(2)
proof (induction xs)
  case Nil
  then show ?case by simp
next
  case (Cons y ys)
  from Cons.prems have ys: "sorted_wrt (\<lambda>a b. cmp a b \<noteq> GT) ys"
    and y: "\<And>z. z \<in> set ys \<Longrightarrow> cmp y z \<noteq> GT" by simp_all
  show ?case
  proof (cases "cmp x y = GT")
    case True
    then have "cmp y x \<noteq> GT" using assms(1) by (rule consistentD1[rotated])
    then show ?thesis using True y Cons.IH[OF ys] by (simp add: set_insort_js)
  next
    case False
    have "cmp x z \<noteq> GT" if "z \<in> set ys" for z
      using consistentD2[OF assms(1) False y[OF that]] .
    then show ?thesis using False y ys by simp
  qed
qed

lemma sorted_wrt_js_sort:
  assumes "consistent cmp"
  shows "sorted_wrt (\<lambda>a b. cmp a b \<noteq> GT) (js_sort cmp xs)"
proof (induction xs)
  case Nil
  then show ?case by (simp add: js_sort_def)
next
  case (Cons a xs)
  have "js_sort cmp (a # xs) = insort_js cmp a (js_sort cmp xs)" by (simp add: js_sort_def)
  then show ?case using sorted_wrt_insort_js[OF assms Cons] by simp
qed

subsection \<open>The order of hands\<close>

lemma rank_num_inj: "rank_num a = rank_num b \<longleftrightarrow> a = b"
  by (cases a; cases b) simp_all

lemma compareHands_pos_iff: "compareHands a b > 0 \<longleftrightarrow> lex4_less (hand_key b) (hand_key a)"
proof (cases "rank a = rank b")
  case False
  then have "rank_num (rank a) \<noteq> rank_num (rank b)" by (simp add: rank_num_inj)
  with False show ?thesis by (auto simp: compareHands_def hand_key_def)
next
  case True
  then show ?thesis by (auto simp: compareHands_def hand_key_def)
qed

lemma compareHands_zero_iff: "compareHands a b = 0 \<longleftrightarrow> hand_key a = hand_key b"
proof (cases "rank a = rank b")
  case False
  then have "rank_num (rank a) \<noteq> rank_num (rank b)" by (simp add: rank_num_inj)
  with False show ?thesis by (simp add: compareHands_def hand_key_def)
next
  case True
  then show ?thesis by (simp add: compareHands_def hand_key_def)
qed

lemma lex4_less_trans: "lex4_less x y \<Longrightarrow> lex4_less y z \<Longrightarrow> lex4_less x z"
  by (cases x; cases y; cases z) (simp, linarith)

lemma lex4_less_irrefl: "\<not> lex4_less x x"
  by (cases x) simp

lemma lex4_less_total: "lex4_less x y \<or> x = y \<or> lex4_less y x"
  by (cases x; cases y) (simp, linarith)

lemma compareHands_nonneg_iff:
  "compareHands a b \<ge> 0 \<longleftrightarrow> \<not> lex4_less (hand_key a) (hand_key b)"
proof -
  have "compareHands a b \<ge> 0 \<longleftrightarrow> compareHands a b > 0 \<or> compareHands a b = 0" by linarith
  also have "\<dots> \<longleftrightarrow> lex4_less (hand_key b) (hand_key a) \<or> hand_key a = hand_key b"
    by (simp only: compareHands_pos_iff compareHands_zero_iff)
  also have "\<dots> \<longleftrightarrow> \<not> lex4_less (hand_key a) (hand_key b)"
    using lex4_less_total[of "hand_key a" "hand_key b"] lex4_less_irrefl[of "hand_key b"]
      lex4_less_trans[of "hand_key a" "hand_key b" "hand_key a"] lex4_less_irrefl[of "hand_key a"]
    by auto
  finally show ?thesis .
qed

lemma counts_append:
  "betterCount (xs @ ys) h = betterCount xs h + betterCount ys h"
  "tiedCount (xs @ ys) h = tiedCount xs h + tiedCount ys h"
  by (simp_all add: betterCount_def tiedCount_def)

lemma counts_key_cong:
  "hand_key h = hand_key h' \<Longrightarrow> betterCount xs h = betterCount xs h'"
  "hand_key h = hand_key h' \<Longrightarrow> tiedCount xs h = tiedCount xs h'"
  by (simp_all add: betterCount_def tiedCount_def compareHands_pos_iff compareHands_zero_iff)

lemma lex4_less_asym: "lex4_less x y \<Longrightarrow> \<not> lex4_less y x"
  using lex4_less_trans lex4_less_irrefl by blast

lemma lex4_less_neq: "lex4_less x y \<Longrightarrow> x \<noteq> y"
  using lex4_less_irrefl by blast

lemma counts_all_better:
  assumes "\<And>y. y \<in> set xs \<Longrightarrow> lex4_less (hand_key h) (hand_key (sel_hand y))"
  shows "betterCount xs h = length xs" and "tiedCount xs h = 0"
proof -
  have "filter (\<lambda>y. compareHands (sel_hand y) h > 0) xs = xs"
    using assms by (simp add: filter_id_conv compareHands_pos_iff)
  then show "betterCount xs h = length xs" by (simp add: betterCount_def)
  have "filter (\<lambda>y. compareHands (sel_hand y) h = 0) xs = []"
    using assms lex4_less_neq by (fastforce simp: filter_empty_conv compareHands_zero_iff)
  then show "tiedCount xs h = 0" by (simp add: tiedCount_def)
qed

lemma counts_all_tied:
  assumes "\<And>y. y \<in> set xs \<Longrightarrow> hand_key (sel_hand y) = hand_key h"
  shows "betterCount xs h = 0" and "tiedCount xs h = length xs"
proof -
  have "filter (\<lambda>y. compareHands (sel_hand y) h > 0) xs = []"
    using assms by (simp add: filter_empty_conv compareHands_pos_iff lex4_less_irrefl)
  then show "betterCount xs h = 0" by (simp add: betterCount_def)
  have "filter (\<lambda>y. compareHands (sel_hand y) h = 0) xs = xs"
    using assms by (simp add: filter_id_conv compareHands_zero_iff)
  then show "tiedCount xs h = length xs" by (simp add: tiedCount_def)
qed

lemma counts_all_worse:
  assumes "\<And>y. y \<in> set xs \<Longrightarrow> lex4_less (hand_key (sel_hand y)) (hand_key h)"
  shows "betterCount xs h = 0" and "tiedCount xs h = 0"
proof -
  have "\<not> lex4_less (hand_key h) (hand_key (sel_hand y))" if "y \<in> set xs" for y
    using assms[OF that] by (rule lex4_less_asym)
  then have "filter (\<lambda>y. compareHands (sel_hand y) h > 0) xs = []"
    by (simp add: filter_empty_conv compareHands_pos_iff)
  then show "betterCount xs h = 0" by (simp add: betterCount_def)
  have "filter (\<lambda>y. compareHands (sel_hand y) h = 0) xs = []"
    using assms lex4_less_neq by (fastforce simp: filter_empty_conv compareHands_zero_iff)
  then show "tiedCount xs h = 0" by (simp add: tiedCount_def)
qed

text \<open>In a descending list the hands tied with the first one form a prefix.\<close>

lemma descending_split:
  assumes "descending (s # rest)"
  defines "g \<equiv> takeWhile (\<lambda>y. compareHands (sel_hand s) (sel_hand y) = 0) rest"
    and "r \<equiv> dropWhile (\<lambda>y. compareHands (sel_hand s) (sel_hand y) = 0) rest"
  shows "\<And>y. y \<in> set g \<Longrightarrow> hand_key (sel_hand y) = hand_key (sel_hand s)"
    and "\<And>z. z \<in> set r \<Longrightarrow> lex4_less (hand_key (sel_hand z)) (hand_key (sel_hand s))"
    and "descending r"
proof -
  show "hand_key (sel_hand y) = hand_key (sel_hand s)" if "y \<in> set g" for y
    using that unfolding g_def by (auto dest!: set_takeWhileD simp: compareHands_zero_iff)
  have rest: "descending rest" and le: "\<And>y. y \<in> set rest \<Longrightarrow> compareHands (sel_hand s) (sel_hand y) \<ge> 0"
    using assms(1) by simp_all
  have r_drop: "r = drop (length g) rest" unfolding r_def g_def by (rule dropWhile_eq_drop)
  show dr: "descending r" unfolding r_drop using rest by (rule sorted_wrt_drop)
  show "lex4_less (hand_key (sel_hand z)) (hand_key (sel_hand s))" if "z \<in> set r" for z
  proof (cases r)
    case Nil
    with that show ?thesis by simp
  next
    case (Cons z0 zs)
    have "\<not> compareHands (sel_hand s) (sel_hand z0) = 0"
      using Cons hd_dropWhile[of "\<lambda>y. compareHands (sel_hand s) (sel_hand y) = 0" rest]
      unfolding r_def by (metis list.sel(1) list.simps(3))
    moreover have "z0 \<in> set rest" using Cons unfolding r_def by (metis list.set_intros(1) set_dropWhileD)
    ultimately have z0: "lex4_less (hand_key (sel_hand z0)) (hand_key (sel_hand s))"
      using le[of z0] by (simp add: compareHands_pos_iff[symmetric] less_le)
    show ?thesis
    proof (cases "z = z0")
      case True
      with z0 show ?thesis by simp
    next
      case False
      then have "z \<in> set zs" using that Cons by simp
      then have "compareHands (sel_hand z0) (sel_hand z) \<ge> 0" using dr Cons by simp
      then have "\<not> lex4_less (hand_key (sel_hand z0)) (hand_key (sel_hand z))"
        by (simp add: compareHands_nonneg_iff)
      then show ?thesis
        using z0 lex4_less_total[of "hand_key (sel_hand z)" "hand_key (sel_hand z0)"]
          lex4_less_trans by metis
    qed
  qed
qed

subsection \<open>Placements and points\<close>

lemma getPlacementPoints_values:
  "getPlacementPoints p n \<in> {0, 1, 2, 3, 4, 6}" "6 < p \<Longrightarrow> getPlacementPoints p n = 0"
  by (auto simp: getPlacementPoints_def PLACEMENT_POINTS_BY_PLAYER_COUNT_def
      split: option.splits if_splits)

lemma of_nat_sum_list_map:
  "(of_nat (sum_list (map h xs)) :: rat) = sum_list (map (\<lambda>p. of_nat (h p)) xs)"
  by (induction xs) simp_all

lemma foldl_js_add_exact:
  fixes h :: "nat \<Rightarrow> nat"
  assumes "a + sum_list (map h xs) < 2 ^ 53"
  shows "foldl (\<lambda>acc p. js_add acc (of_nat (h p))) (of_nat a) xs =
           of_nat (a + sum_list (map h xs))"
  using assms
proof (induction xs arbitrary: a)
  case Nil
  then show ?case by simp
next
  case (Cons x xs)
  have "a + h x < 2 ^ 53" using Cons.prems by simp
  then have "js_add (of_nat a) (of_nat (h x)) = of_nat (a + h x)"
    using js_double_of_nat[of "a + h x"] by (simp add: js_add_def)
  moreover have "(a + h x) + sum_list (map h xs) < 2 ^ 53" using Cons.prems by simp
  ultimately show ?case using Cons.IH[of "a + h x"] by (simp add: add.assoc)
qed

lemma sum_list_few_points:
  fixes h :: "nat \<Rightarrow> nat"
  assumes "\<And>p. h p \<le> 6" "\<And>p. 6 < p \<Longrightarrow> h p = 0"
  shows "sum_list (map h [k ..< k + t]) \<le> 42"
proof -
  have "sum_list (map h [k ..< k + t]) = sum h {k ..< k + t}"
    by (simp add: sum_list_distinct_conv_sum_set)
  also have "\<dots> = sum h ({k ..< k + t} \<inter> {.. 6})"
  proof (rule sum.mono_neutral_right)
    show "\<forall>i\<in>{k ..< k + t} - {k ..< k + t} \<inter> {.. 6}. h i = 0"
    proof
      fix i assume "i \<in> {k ..< k + t} - {k ..< k + t} \<inter> {.. 6}"
      then have "6 < i" by auto
      then show "h i = 0" by (rule assms(2))
    qed
  qed auto
  also have "\<dots> \<le> sum h {.. 6}"
    by (rule sum_mono2) auto
  also have "\<dots> \<le> sum (\<lambda>p. 6) {.. 6::nat}"
    by (rule sum_mono) (rule assms(1))
  finally show ?thesis by simp
qed

text \<open>The points of a tie-group add up without rounding: they are small integers.\<close>

lemma totalPoints_sum:
  "totalPoints n k t = sum_list (map (\<lambda>p. getPlacementPoints p n) [k ..< k + t])"
proof -
  define h where "h p = nat \<lfloor>getPlacementPoints p n\<rfloor>" for p
  have g: "getPlacementPoints p n = of_nat (h p)" for p
    using getPlacementPoints_values(1)[of p n] by (auto simp: h_def)
  have h6: "h p \<le> 6" for p
    using getPlacementPoints_values(1)[of p n] by (auto simp: h_def)
  have h0: "h p = 0" if "6 < p" for p
    using getPlacementPoints_values(2)[OF that, of n] by (simp add: h_def)
  have "sum_list (map h [k ..< k + t]) \<le> 42" using h6 h0 by (rule sum_list_few_points)
  then have b: "0 + sum_list (map h [k ..< k + t]) < 2 ^ 53" by simp
  have "totalPoints n k t = foldl (\<lambda>acc p. js_add acc (of_nat (h p))) (of_nat 0) [k ..< k + t]"
    by (simp add: totalPoints_def g)
  also have "\<dots> = of_nat (0 + sum_list (map h [k ..< k + t]))"
    using b by (rule foldl_js_add_exact)
  also have "\<dots> = sum_list (map (\<lambda>p. getPlacementPoints p n) [k ..< k + t])"
    by (simp add: g of_nat_sum_list_map)
  finally show ?thesis .
qed

lemma placementLoop_Cons:
  "placementLoop n k (s # rest) =
     map (tiedResult k
            (js_div
               (totalPoints n k
                  (length (s # takeWhile (\<lambda>y. compareHands (sel_hand s) (sel_hand y) = 0) rest)))
               (of_nat (length (s # takeWhile (\<lambda>y. compareHands (sel_hand s) (sel_hand y) = 0) rest)))))
       (s # takeWhile (\<lambda>y. compareHands (sel_hand s) (sel_hand y) = 0) rest) @
     placementLoop n
       (k + length (s # takeWhile (\<lambda>y. compareHands (sel_hand s) (sel_hand y) = 0) rest))
       (dropWhile (\<lambda>y. compareHands (sel_hand s) (sel_hand y) = 0) rest)"
  by (subst placementLoop.simps) (simp only: Let_def)

declare placementLoop.simps [simp del]

lemma placementLoop_descending:
  "descending xs \<Longrightarrow> placementLoop n k xs = map (loopResult n k xs) xs"
proof (induction "length xs" arbitrary: xs k rule: less_induct)
  case less
  show ?case
  proof (cases xs)
    case Nil
    then show ?thesis by (simp add: placementLoop.simps)
  next
    case (Cons s rest)
    define g where "g = takeWhile (\<lambda>y. compareHands (sel_hand s) (sel_hand y) = 0) rest"
    define r where "r = dropWhile (\<lambda>y. compareHands (sel_hand s) (sel_hand y) = 0) rest"
    have d: "descending (s # rest)" using less.prems Cons by simp
    note sp = descending_split[OF d, folded g_def r_def]
    have xs: "xs = (s # g) @ r" by (simp add: Cons g_def r_def)
    have tied: "hand_key (sel_hand y) = hand_key (sel_hand s)" if "y \<in> set (s # g)" for y
      using that sp(1) by auto
    have len: "length r < length xs" by (simp add: xs)
    have step: "placementLoop n k xs =
        map (tiedResult k (js_div (totalPoints n k (length (s # g))) (of_nat (length (s # g))))) (s # g) @
        placementLoop n (k + length (s # g)) r"
      unfolding Cons g_def r_def by (rule placementLoop_Cons)
    have ih: "placementLoop n (k + length (s # g)) r = map (loopResult n (k + length (s # g)) r) r"
      using less.hyps[OF len sp(3)] .
    have g0: "betterCount (s # g) (sel_hand s) = 0" "tiedCount (s # g) (sel_hand s) = length (s # g)"
      by (rule counts_all_tied[of "s # g" "sel_hand s"], rule tied, assumption)+
    have r0: "betterCount r (sel_hand s) = 0" "tiedCount r (sel_hand s) = 0"
      by (rule counts_all_worse[of r "sel_hand s"], rule sp(2), assumption)+
    have first: "loopResult n k xs y =
        tiedResult k (js_div (totalPoints n k (length (s # g))) (of_nat (length (s # g)))) y"
      if "y \<in> set (s # g)" for y
    proof -
      have k: "hand_key (sel_hand y) = hand_key (sel_hand s)" using tied[OF that] .
      have "betterCount xs (sel_hand y) = 0"
        unfolding xs counts_append counts_key_cong(1)[OF k] g0 r0 by simp
      moreover have "tiedCount xs (sel_hand y) = length (s # g)"
        unfolding xs counts_append counts_key_cong(2)[OF k] g0 r0 by simp
      ultimately show ?thesis by (simp add: loopResult_def)
    qed
    have second: "loopResult n k xs z = loopResult n (k + length (s # g)) r z"
      if "z \<in> set r" for z
    proof -
      have b: "lex4_less (hand_key (sel_hand z)) (hand_key (sel_hand y))" if "y \<in> set (s # g)" for y
        unfolding tied[OF that] using sp(2)[OF \<open>z \<in> set r\<close>] .
      have g1: "betterCount (s # g) (sel_hand z) = length (s # g)" "tiedCount (s # g) (sel_hand z) = 0"
        by (rule counts_all_better[of "s # g" "sel_hand z"], rule b, assumption)+
      have "betterCount xs (sel_hand z) = length (s # g) + betterCount r (sel_hand z)"
        unfolding xs counts_append g1 by simp
      moreover have "tiedCount xs (sel_hand z) = tiedCount r (sel_hand z)"
        unfolding xs counts_append g1 by simp
      ultimately show ?thesis by (simp add: loopResult_def add.assoc)
    qed
    have "map (loopResult n k xs) xs =
        map (loopResult n k xs) (s # g) @ map (loopResult n k xs) r"
      by (subst xs) simp
    also have "map (loopResult n k xs) (s # g) =
        map (tiedResult k (js_div (totalPoints n k (length (s # g))) (of_nat (length (s # g))))) (s # g)"
      using first by (intro map_cong refl) 
    also have "map (loopResult n k xs) r = map (loopResult n (k + length (s # g)) r) r"
      using second by (intro map_cong refl)
    finally have "map (loopResult n k xs) xs =
        map (tiedResult k (js_div (totalPoints n k (length (s # g))) (of_nat (length (s # g))))) (s # g) @
        map (loopResult n (k + length (s # g)) r) r" .
    then show ?thesis by (simp only: step ih)
  qed
qed

lemma length_filter_mset:
  assumes "mset xs = mset ys"
  shows "length (filter P xs) = length (filter P ys)"
proof -
  have "filter_mset P (mset xs) = filter_mset P (mset ys)" using assms by simp
  then have "mset (filter P xs) = mset (filter P ys)" by (simp only: mset_filter)
  then have "size (mset (filter P xs)) = size (mset (filter P ys))" by (rule arg_cong)
  then show ?thesis by (simp only: size_mset)
qed

lemma counts_mset:
  assumes "mset xs = mset ys"
  shows "betterCount xs h = betterCount ys h" and "tiedCount xs h = tiedCount ys h"
  using length_filter_mset[OF assms] by (simp_all add: betterCount_def tiedCount_def)

lemma consistentI:
  "(\<And>a b. cmp a b = GT \<Longrightarrow> cmp b a \<noteq> GT) \<Longrightarrow>
   (\<And>a b c. cmp a b \<noteq> GT \<Longrightarrow> cmp b c \<noteq> GT \<Longrightarrow> cmp a c \<noteq> GT) \<Longrightarrow> consistent cmp"
  unfolding consistent_def by blast

lemma hand_compare_consistent:
  "consistent (\<lambda>(a::PlayerSelection) b. sign_int (compareHands (sel_hand b) (sel_hand a)))"
proof (rule consistentI)
  fix a b :: PlayerSelection
  assume "sign_int (compareHands (sel_hand b) (sel_hand a)) = GT"
  then have "compareHands (sel_hand b) (sel_hand a) > 0"
    by (simp add: sign_int_def split: if_splits)
  then have "lex4_less (hand_key (sel_hand a)) (hand_key (sel_hand b))"
    by (simp only: compareHands_pos_iff)
  then have "\<not> lex4_less (hand_key (sel_hand b)) (hand_key (sel_hand a))" by (rule lex4_less_asym)
  then show "sign_int (compareHands (sel_hand a) (sel_hand b)) \<noteq> GT"
    by (simp add: sign_int_def compareHands_pos_iff[symmetric])
next
  fix a b c :: PlayerSelection
  assume "sign_int (compareHands (sel_hand b) (sel_hand a)) \<noteq> GT"
    and "sign_int (compareHands (sel_hand c) (sel_hand b)) \<noteq> GT"
  then have n1: "\<not> compareHands (sel_hand b) (sel_hand a) > 0"
    and n2: "\<not> compareHands (sel_hand c) (sel_hand b) > 0"
    by (simp_all add: sign_int_def split: if_splits)
  have 1: "\<not> lex4_less (hand_key (sel_hand a)) (hand_key (sel_hand b))"
    using n1 by (simp add: compareHands_pos_iff)
  have 2: "\<not> lex4_less (hand_key (sel_hand b)) (hand_key (sel_hand c))"
    using n2 by (simp add: compareHands_pos_iff)
  have "\<not> lex4_less (hand_key (sel_hand a)) (hand_key (sel_hand c))"
  proof
    assume ac: "lex4_less (hand_key (sel_hand a)) (hand_key (sel_hand c))"
    from 1 lex4_less_total[of "hand_key (sel_hand a)" "hand_key (sel_hand b)"]
    consider "hand_key (sel_hand a) = hand_key (sel_hand b)"
      | "lex4_less (hand_key (sel_hand b)) (hand_key (sel_hand a))" by blast
    then show False
    proof cases
      case 1
      with ac 2 show False by simp
    next
      case 2
      from lex4_less_trans[OF 2 ac] \<open>\<not> lex4_less (hand_key (sel_hand b)) (hand_key (sel_hand c))\<close>
      show False by simp
    qed
  qed
  then show "sign_int (compareHands (sel_hand c) (sel_hand a)) \<noteq> GT"
    by (simp add: sign_int_def compareHands_pos_iff[symmetric])
qed

lemma js_sort_hands_descending:
  "descending (js_sort (\<lambda>a b. sign_int (compareHands (sel_hand b) (sel_hand a))) sels)"
proof -
  have "sorted_wrt (\<lambda>a b. sign_int (compareHands (sel_hand b) (sel_hand a)) \<noteq> GT)
          (js_sort (\<lambda>a b. sign_int (compareHands (sel_hand b) (sel_hand a))) sels)"
    using hand_compare_consistent by (rule sorted_wrt_js_sort)
  moreover have "sign_int (compareHands (sel_hand b) (sel_hand a)) \<noteq> GT \<longleftrightarrow>
      compareHands (sel_hand a) (sel_hand b) \<ge> 0" for a b :: PlayerSelection
    by (simp add: sign_int_def compareHands_nonneg_iff compareHands_pos_iff[symmetric])
  ultimately show ?thesis by simp
qed

lemma PLACEMENT_POINTS_simps:
  "PLACEMENT_POINTS_BY_PLAYER_COUNT 2 = Some [1 \<mapsto> 6, 2 \<mapsto> 0]"
  "PLACEMENT_POINTS_BY_PLAYER_COUNT 3 = Some [1 \<mapsto> 6, 2 \<mapsto> 3, 3 \<mapsto> 0]"
  "PLACEMENT_POINTS_BY_PLAYER_COUNT 4 = Some [1 \<mapsto> 6, 2 \<mapsto> 3, 3 \<mapsto> 1, 4 \<mapsto> 0]"
  "PLACEMENT_POINTS_BY_PLAYER_COUNT 5 = Some [1 \<mapsto> 6, 2 \<mapsto> 4, 3 \<mapsto> 2, 4 \<mapsto> 1, 5 \<mapsto> 0]"
  "PLACEMENT_POINTS_BY_PLAYER_COUNT 6 =
     Some [1 \<mapsto> 6, 2 \<mapsto> 4, 3 \<mapsto> 3, 4 \<mapsto> 2, 5 \<mapsto> 1, 6 \<mapsto> 0]"
  by (simp_all add: PLACEMENT_POINTS_BY_PLAYER_COUNT_def)

lemma placement_cases:
  obtains "p = 0" | "p = 1" | "p = 2" | "p = 3" | "p = 4" | "p = 5" | "p = 6" | "(p::nat) > 6"
  by arith

lemma getPlacementPoints_spec:
  assumes "2 \<le> n" "n \<le> 6"
  shows "getPlacementPoints p n = spec_points n p"
  using assms(1,2)
proof (cases n rule: player_count_cases)
  case 1
  then show ?thesis
    by (cases p rule: placement_cases)
      (simp_all add: getPlacementPoints_def PLACEMENT_POINTS_simps spec_points_def spec_points_table_def)
next
  case 2
  then show ?thesis
    by (cases p rule: placement_cases)
      (simp_all add: getPlacementPoints_def PLACEMENT_POINTS_simps spec_points_def spec_points_table_def)
next
  case 3
  then show ?thesis
    by (cases p rule: placement_cases)
      (simp_all add: getPlacementPoints_def PLACEMENT_POINTS_simps spec_points_def spec_points_table_def)
next
  case 4
  then show ?thesis
    by (cases p rule: placement_cases)
      (simp_all add: getPlacementPoints_def PLACEMENT_POINTS_simps spec_points_def spec_points_table_def)
next
  case 5
  then show ?thesis
    by (cases p rule: placement_cases)
      (simp_all add: getPlacementPoints_def PLACEMENT_POINTS_simps spec_points_def spec_points_table_def)
qed

lemma loopResult_spec:
  assumes "2 \<le> n" "n \<le> 6" "mset xs = mset sels"
  shows "loopResult n 1 xs s = double_result n sels s"
proof -
  have "(\<lambda>p. getPlacementPoints p n) = spec_points n"
    using getPlacementPoints_spec[OF assms(1,2)] by auto
  then show ?thesis
    by (simp add: loopResult_def double_result_def spec_result_def tiedResult_def
        totalPoints_sum Let_def js_div_def counts_mset[OF assms(3)])
qed

lemma lex4_ge_gt: "\<not> lex4_less y h \<Longrightarrow> lex4_less h' h \<Longrightarrow> lex4_less h' y"
  using lex4_less_total[of y h] lex4_less_trans by blast

lemma lex4_le_lt: "\<not> lex4_less h' z \<Longrightarrow> lex4_less h' h \<Longrightarrow> lex4_less z h"
  using lex4_less_total[of z h'] lex4_less_trans by blast

lemma descending_nth:
  assumes "descending xs" "j \<le> i" "i < length xs"
  shows "\<not> lex4_less (hand_key (sel_hand (xs ! j))) (hand_key (sel_hand (xs ! i)))"
proof (cases "j = i")
  case True
  then show ?thesis by (simp add: lex4_less_irrefl)
next
  case False
  then have "j < i" using assms(2) by simp
  then have "compareHands (sel_hand (xs ! j)) (sel_hand (xs ! i)) \<ge> 0"
    using sorted_wrt_nth_less[OF assms(1) _ assms(3), of j] by simp
  then show ?thesis by (simp add: compareHands_nonneg_iff)
qed

lemma next_group_starts:
  assumes "descending xs" "Suc i < length xs"
    and "compareHands (sel_hand (xs ! i)) (sel_hand (xs ! Suc i)) \<noteq> 0"
  shows "betterCount xs (sel_hand (xs ! Suc i)) =
           betterCount xs (sel_hand (xs ! i)) + tiedCount xs (sel_hand (xs ! i))"
proof -
  let ?h = "sel_hand (xs ! i)" and ?h' = "sel_hand (xs ! Suc i)"
  let ?A = "take (Suc i) xs" and ?B = "drop (Suc i) xs"
  have xs: "xs = ?A @ ?B" by simp
  have "\<not> lex4_less (hand_key ?h) (hand_key ?h')"
    using descending_nth[OF assms(1), of i "Suc i"] assms(2) by simp
  moreover have "hand_key ?h \<noteq> hand_key ?h'" using assms(3) by (simp add: compareHands_zero_iff)
  ultimately have lt: "lex4_less (hand_key ?h') (hand_key ?h)"
    using lex4_less_total[of "hand_key ?h" "hand_key ?h'"] by blast
  have A: "\<not> lex4_less (hand_key (sel_hand y)) (hand_key ?h)" if "y \<in> set ?A" for y
  proof -
    from that obtain j where "j < Suc i" "y = xs ! j"
      using assms(2) by (auto simp: in_set_conv_nth)
    then show ?thesis using descending_nth[OF assms(1), of j i] assms(2) by simp
  qed
  have B: "\<not> lex4_less (hand_key ?h') (hand_key (sel_hand z))" if "z \<in> set ?B" for z
  proof -
    from that obtain j where "j < length xs - Suc i" "z = xs ! (Suc i + j)"
      using assms(2) by (auto simp: in_set_conv_nth)
    then show ?thesis using descending_nth[OF assms(1), of "Suc i" "Suc i + j"] by simp
  qed
  have A': "lex4_less (hand_key ?h') (hand_key (sel_hand y))" if "y \<in> set ?A" for y
    using lex4_ge_gt[OF A[OF that] lt] .
  have B': "lex4_less (hand_key (sel_hand z)) (hand_key ?h)" if "z \<in> set ?B" for z
    using lex4_le_lt[OF B[OF that] lt] .
  have lenA: "length ?A = Suc i" using assms(2) by simp
  have 1: "betterCount ?A ?h' = Suc i"
    using counts_all_better(1)[of ?A ?h', OF A'] lenA by simp
  have "filter (\<lambda>y. compareHands (sel_hand y) ?h' > 0) ?B = []"
    using B by (simp add: filter_empty_conv compareHands_pos_iff)
  then have 2: "betterCount ?B ?h' = 0" by (simp add: betterCount_def)
  have 3: "betterCount ?B ?h = 0" "tiedCount ?B ?h = 0"
    using counts_all_worse[of ?B ?h, OF B'] by simp_all
  have "filter (\<lambda>y. compareHands (sel_hand y) ?h = 0) ?A =
        filter (\<lambda>y. \<not> compareHands (sel_hand y) ?h > 0) ?A"
  proof (rule filter_cong[OF refl])
    fix y assume "y \<in> set ?A"
    from A[OF this] lex4_less_total[of "hand_key (sel_hand y)" "hand_key ?h"] lex4_less_irrefl
    show "(compareHands (sel_hand y) ?h = 0) = (\<not> compareHands (sel_hand y) ?h > 0)"
      unfolding compareHands_zero_iff compareHands_pos_iff by metis
  qed
  then have 4: "betterCount ?A ?h + tiedCount ?A ?h = Suc i"
    using sum_length_filter_compl[of "\<lambda>y. compareHands (sel_hand y) ?h > 0" ?A] lenA
    by (simp add: betterCount_def tiedCount_def)
  have "betterCount xs ?h' = betterCount ?A ?h' + betterCount ?B ?h'"
    by (subst xs) (simp only: counts_append)
  moreover have "betterCount xs ?h = betterCount ?A ?h + betterCount ?B ?h"
    by (subst xs) (simp only: counts_append)
  moreover have "tiedCount xs ?h = tiedCount ?A ?h + tiedCount ?B ?h"
    by (subst xs) (simp only: counts_append)
  ultimately show ?thesis using 1 2 3 4 by simp
qed

lemma exampleTie_sorted:
  "js_sort (\<lambda>a b. sign_int (compareHands (sel_hand b) (sel_hand a))) exampleTie =
     [exampleTie ! 1, exampleTie ! 0, exampleTie ! 2, exampleTie ! 3]"
  by (simp add: js_sort_def exampleTie_def exampleHand_def compareHands_def sign_int_def)

lemma js_double_third: "js_double (4 / 3) = 6004799503160661 / 4503599627370496"
  by code_simp

lemma js_double_six: "js_double 6 = 6"
  using js_double_of_nat[of 6] by simp

lemma exampleTie_double_results:
  "map (\<lambda>r. (sr_playerId r, placement r, pointsEarned r))
     (map (double_result 4 exampleTie)
        [exampleTie ! 1, exampleTie ! 0, exampleTie ! 2, exampleTie ! 3]) =
   [(''p1'', 1, 6), (''p2'', 2, 6004799503160661 / 4503599627370496),
    (''p3'', 2, 6004799503160661 / 4503599627370496),
    (''p4'', 2, 6004799503160661 / 4503599627370496)]"
  by (simp add: double_result_def spec_result_def betterCount_def tiedCount_def exampleTie_def
      exampleHand_def compareHands_def spec_points_def spec_points_table_def Let_def
      js_double_third js_double_six)

text \<open>
  C3. For every non-empty list of selections and player count in 2..6,
  \<open>calculateSetPlacements\<close> sorts the hands descending and walks them in tie-groups. Told
  without the loop: the result lists the selections in descending order of their hands; a
  selection whose hand is beaten by \<open>b\<close> hands and tied with \<open>t\<close> hands (itself included)
  gets placement \<open>k = b + 1\<close>; its points are those of the placements \<open>k .. k + t - 1\<close> of
  the table for the player count, added up and divided by \<open>t\<close>, as a double: the double
  nearest to the quotient, which is the quotient itself only where that is a double; and
  where the hands of two neighbours differ, the second has placement \<open>k + t\<close>.
\<close>

theorem calculateSetPlacements_tie_groups:
  assumes "sels \<noteq> []" and "2 \<le> n" and "n \<le> 6"
  shows "\<exists>sorted.
           sorted = js_sort (\<lambda>a b. sign_int (compareHands (sel_hand b) (sel_hand a))) sels \<and>
           mset sorted = mset sels \<and>
           sorted_wrt (\<lambda>a b. compareHands (sel_hand a) (sel_hand b) \<ge> 0) sorted \<and>
           calculateSetPlacements sels (Some n) =
             map (\<lambda>s. (spec_result n sels s)
                         \<lparr>pointsEarned := js_double (pointsEarned (spec_result n sels s))\<rparr>)
               sorted \<and>
           (\<forall>i. Suc i < length sorted \<and>
                compareHands (sel_hand (sorted ! i)) (sel_hand (sorted ! Suc i)) \<noteq> 0 \<longrightarrow>
                placement (spec_result n sels (sorted ! Suc i)) =
                  placement (spec_result n sels (sorted ! i)) +
                    tiedCount sels (sel_hand (sorted ! i)))"
proof -
  define sorted where
    "sorted = js_sort (\<lambda>a b. sign_int (compareHands (sel_hand b) (sel_hand a))) sels"
  have m: "mset sorted = mset sels" unfolding sorted_def by (rule mset_js_sort)
  have d: "descending sorted" unfolding sorted_def by (rule js_sort_hands_descending)
  have "calculateSetPlacements sels (Some n) = placementLoop n 1 sorted"
    using assms(1) by (simp add: calculateSetPlacements_def sorted_def Let_def)
  also have "\<dots> = map (loopResult n 1 sorted) sorted" using d by (rule placementLoop_descending)
  also have "\<dots> = map (double_result n sels) sorted"
    using loopResult_spec[OF assms(2,3) m] by (intro map_cong refl)
  finally have c: "calculateSetPlacements sels (Some n) =
      map (\<lambda>s. (spec_result n sels s)
                  \<lparr>pointsEarned := js_double (pointsEarned (spec_result n sels s))\<rparr>) sorted"
    by (simp add: double_result_def[abs_def])
  have g: "placement (spec_result n sels (sorted ! Suc i)) =
             placement (spec_result n sels (sorted ! i)) + tiedCount sels (sel_hand (sorted ! i))"
    if "Suc i < length sorted"
      and "compareHands (sel_hand (sorted ! i)) (sel_hand (sorted ! Suc i)) \<noteq> 0" for i
    using next_group_starts[OF d that] by (simp add: spec_result_def Let_def counts_mset[OF m])
  show ?thesis
    using m d c g sorted_def by blast
qed

theorem calculateSetPlacements_tie_groups_witness:
  "map (\<lambda>r. (sr_playerId r, placement r, pointsEarned r))
     (calculateSetPlacements exampleTie (Some 4)) =
   [(''p1'', 1, 6), (''p2'', 2, 6004799503160661 / 4503599627370496),
    (''p3'', 2, 6004799503160661 / 4503599627370496),
    (''p4'', 2, 6004799503160661 / 4503599627370496)]"
proof -
  from calculateSetPlacements_tie_groups[of exampleTie 4]
  have "calculateSetPlacements exampleTie (Some 4) =
      map (double_result 4 exampleTie)
        [exampleTie ! 1, exampleTie ! 0, exampleTie ! 2, exampleTie ! 3]"
    unfolding exampleTie_sorted double_result_def[abs_def] by (simp add: exampleTie_def)
  then show ?thesis by (simp only: exampleTie_double_results)
qed

text \<open>
  Three of four players tied on placement 2 share the points \<open>3 + 1 + 0\<close>. Each gets the
  double \<open>1.3333333333333332593\<dots>\<close>, not \<open>4 / 3\<close>.
\<close>

theorem calculateSetPlacements_points_rounded:
  "map pointsEarned (calculateSetPlacements exampleTie (Some 4)) =
     [6, 6004799503160661 / 4503599627370496, 6004799503160661 / 4503599627370496,
      6004799503160661 / 4503599627370496] \<and>
   (6004799503160661 / 4503599627370496 :: rat) \<noteq> (3 + 1 + 0) / 3"
proof -
  let ?sorted = "[exampleTie ! 1, exampleTie ! 0, exampleTie ! 2, exampleTie ! 3]"
  have d: "descending ?sorted"
    using js_sort_hands_descending[of exampleTie] by (simp only: exampleTie_sorted)
  have m: "mset ?sorted = mset exampleTie"
    using mset_js_sort[of "\<lambda>a b. sign_int (compareHands (sel_hand b) (sel_hand a))" exampleTie]
    by (simp only: exampleTie_sorted)
  have "calculateSetPlacements exampleTie (Some 4) = placementLoop 4 1 ?sorted"
    by (simp add: calculateSetPlacements_def Let_def exampleTie_sorted) (simp add: exampleTie_def)
  also have "\<dots> = map (loopResult 4 1 ?sorted) ?sorted" using d by (rule placementLoop_descending)
  also have "\<dots> = map (double_result 4 exampleTie) ?sorted"
    using loopResult_spec[of 4 ?sorted exampleTie, OF _ _ m] by (intro map_cong refl) simp
  finally have "map (\<lambda>r. (sr_playerId r, placement r, pointsEarned r))
      (calculateSetPlacements exampleTie (Some 4)) =
    [(''p1'', 1, 6), (''p2'', 2, 6004799503160661 / 4503599627370496),
     (''p3'', 2, 6004799503160661 / 4503599627370496),
     (''p4'', 2, 6004799503160661 / 4503599627370496)]"
    by (simp only: exampleTie_double_results)
  then have "map (\<lambda>x. snd (snd x)) (map (\<lambda>r. (sr_playerId r, placement r, pointsEarned r))
      (calculateSetPlacements exampleTie (Some 4))) =
    [6, 6004799503160661 / 4503599627370496, 6004799503160661 / 4503599627370496,
     6004799503160661 / 4503599627370496]"
    by simp
  then show ?thesis by (simp add: o_def)
qed

subsection \<open>Turn order\<close>

lemma fold_order_map:
  "distinct ks \<Longrightarrow>
   fold (\<lambda>(playerId, index) m. m(playerId \<mapsto> index)) (zip ks [j ..< j + length ks]) m0 i =
     (if i \<in> set ks then Some (j + firstIndex ks i) else m0 i)"
proof (induction ks arbitrary: j m0)
  case Nil
  then show ?case by simp
next
  case (Cons k ks)
  have u: "[j ..< j + length (k # ks)] = j # [Suc j ..< Suc j + length ks]"
    by (simp add: upt_rec)
  have e: "zip (k # ks) [j ..< j + length (k # ks)] = (k, j) # zip ks [Suc j ..< Suc j + length ks]"
    unfolding u by (rule zip_Cons_Cons)
  have "fold (\<lambda>(playerId, index) m. m(playerId \<mapsto> index)) (zip (k # ks) [j ..< j + length (k # ks)]) m0 i
      = fold (\<lambda>(playerId, index) m. m(playerId \<mapsto> index)) (zip ks [Suc j ..< Suc j + length ks]) (m0(k \<mapsto> j)) i"
    by (simp only: e fold.simps comp_apply prod.case)
  also have "\<dots> = (if i \<in> set ks then Some (Suc j + firstIndex ks i) else (m0(k \<mapsto> j)) i)"
    using Cons.prems by (intro Cons.IH) simp
  also have "\<dots> = (if i \<in> set (k # ks) then Some (j + firstIndex (k # ks) i) else m0 i)"
    using Cons.prems by (auto simp: firstIndex_def)
  finally show ?case .
qed

lemma originalOrderMap_distinct:
  "distinct order \<Longrightarrow> originalOrderMap order i = spec_position order i"
  using fold_order_map[of order 0 Map.empty i]
  by (simp add: originalOrderMap_def spec_position_def)

lemma firstIndex_less: "i \<in> set order \<Longrightarrow> firstIndex order i < length order"
  unfolding firstIndex_def by (induction order) auto

lemma firstIndex_unlisted: "i \<notin> set order \<Longrightarrow> firstIndex order i = length order"
  unfolding firstIndex_def by (induction order) auto

lemma posKey_unlisted: "player_id p \<notin> set order \<Longrightarrow> posKey order p = length order"
  by (simp add: posKey_def firstIndex_unlisted)

lemma posKey_listed: "player_id p \<in> set order \<Longrightarrow> posKey order p < length order"
  by (simp add: posKey_def firstIndex_less)

lemma turnOrderCompare_GT:
  assumes "distinct order"
  shows "turnOrderCompare (originalOrderMap order) a b = GT \<longleftrightarrow>
           cumulativeScore b > cumulativeScore a \<or>
           (cumulativeScore a = cumulativeScore b \<and> posKey order a > posKey order b)"
proof (cases "cumulativeScore b = cumulativeScore a")
  case False
  then show ?thesis by (auto simp: turnOrderCompare_def sign_rat_def)
next
  case True
  have a: "originalIndex (originalOrderMap order) a =
      (if player_id a \<in> set order then Finite (int (posKey order a)) else PosInfinity)"
    by (simp add: originalIndex_def originalOrderMap_distinct[OF assms] spec_position_def posKey_def)
  have b: "originalIndex (originalOrderMap order) b =
      (if player_id b \<in> set order then Finite (int (posKey order b)) else PosInfinity)"
    by (simp add: originalIndex_def originalOrderMap_distinct[OF assms] spec_position_def posKey_def)
  show ?thesis
    using True posKey_unlisted[of a order] posKey_unlisted[of b order]
      posKey_listed[of a order] posKey_listed[of b order]
    by (auto simp: turnOrderCompare_def a b sign_int_def)
qed

lemma tie_break_posKey: "tie_break order a b \<longleftrightarrow> posKey order a \<le> posKey order b"
  using posKey_unlisted[of a order] posKey_unlisted[of b order]
    posKey_listed[of a order] posKey_listed[of b order]
  by (auto simp: tie_break_def spec_position_def posKey_def)

lemma turnOrderCompare_le:
  assumes "distinct order"
  shows "turnOrderCompare (originalOrderMap order) a b \<noteq> GT \<longleftrightarrow> turn_order_le order a b"
  unfolding turnOrderCompare_GT[OF assms] turn_order_le_def tie_break_posKey by auto

lemma turnOrderCompare_consistent:
  assumes "distinct order"
  shows "consistent (turnOrderCompare (originalOrderMap order))"
proof (rule consistentI)
  fix a b
  assume "turnOrderCompare (originalOrderMap order) a b = GT"
  then show "turnOrderCompare (originalOrderMap order) b a \<noteq> GT"
    unfolding turnOrderCompare_GT[OF assms] by auto
next
  fix a b c
  assume "turnOrderCompare (originalOrderMap order) a b \<noteq> GT"
    and "turnOrderCompare (originalOrderMap order) b c \<noteq> GT"
  then show "turnOrderCompare (originalOrderMap order) a c \<noteq> GT"
    unfolding turnOrderCompare_GT[OF assms] by auto
qed

lemma calculateTurnOrder_sorted:
  assumes "distinct originalOrder"
  shows "sorted_wrt (turn_order_le originalOrder)
           (js_sort (turnOrderCompare (originalOrderMap originalOrder)) ps)"
proof -
  have "sorted_wrt (\<lambda>a b. turnOrderCompare (originalOrderMap originalOrder) a b \<noteq> GT)
          (js_sort (turnOrderCompare (originalOrderMap originalOrder)) ps)"
    using turnOrderCompare_consistent[OF assms] by (rule sorted_wrt_js_sort)
  then show ?thesis by (simp only: turnOrderCompare_le[OF assms])
qed

lemma alloc_cells:
  "alloc a h = (r, h1) \<Longrightarrow> r = next_ref h \<and> cells h1 = (cells h)(r \<mapsto> a) \<and> next_ref h1 = Suc r"
  by (auto simp: alloc_def)

text \<open>
  C8. For every player list and round-1 initial order (a list without repetitions),
  \<open>calculateTurnOrder\<close> returns the player ids sorted by \<open>cumulativeScore\<close> descending,
  ties broken by the earlier position in the initial order, players missing from that
  order last. Neither \<open>calculateTurnOrder\<close> nor \<open>calculateInitialTurnOrder\<close> mutates its
  inputs: on the heap, every array that existed before the call is unchanged after it, and
  the result is a new array.
\<close>

theorem calculateTurnOrder_sorts_a_copy:
  assumes "distinct originalOrder" and "wf_heap h"
    and "cells h playersRef = Some (PlayerArray ps)"
    and "cells h originalOrderRef = Some (StringArray originalOrder)"
  shows "\<exists>sorted r h1.
           sorted = js_sort (turnOrderCompare (originalOrderMap originalOrder)) ps \<and>
           calculateTurnOrder ps originalOrder = map player_id sorted \<and>
           mset sorted = mset ps \<and>
           sorted_wrt (turn_order_le originalOrder) sorted \<and>
           calculateTurnOrder_heap h playersRef originalOrderRef = Some (r, h1) \<and>
           cells h1 r = Some (StringArray (calculateTurnOrder ps originalOrder)) \<and>
           (\<forall>a\<in>dom (cells h). cells h1 a = cells h a) \<and>
           (\<forall>rollsRef rs. cells h rollsRef = Some (RollArray rs) \<longrightarrow>
              (\<exists>r2 h2. calculateInitialTurnOrder_heap h rollsRef = Some (r2, h2) \<and>
                 cells h2 r2 = Some (StringArray (calculateInitialTurnOrder rs)) \<and>
                 (\<forall>a\<in>dom (cells h). cells h2 a = cells h a)))"
proof -
  let ?sorted = "js_sort (turnOrderCompare (originalOrderMap originalOrder)) ps"
  let ?c = "next_ref h"
  have fresh: "a \<noteq> ?c" "a \<noteq> Suc ?c" if "a \<in> dom (cells h)" for a
  proof -
    have "a < ?c" using assms(2) that unfolding wf_heap_def by blast
    then show "a \<noteq> ?c" "a \<noteq> Suc ?c" by simp_all
  qed
  have 1: "calculateTurnOrder_heap h playersRef originalOrderRef =
      Some (Suc ?c, \<lparr>cells = (cells h)(?c \<mapsto> PlayerArray ?sorted,
                                      Suc ?c \<mapsto> StringArray (map player_id ?sorted)),
                     next_ref = Suc (Suc ?c)\<rparr>)"
    using assms(3,4) by (simp add: calculateTurnOrder_heap_def alloc_def Let_def)
  have 2: "calculateInitialTurnOrder_heap h rollsRef =
      Some (Suc ?c, \<lparr>cells = (cells h)(?c \<mapsto> RollArray (js_sort (\<lambda>a b. sign_int (roll a - roll b)) rs),
                                      Suc ?c \<mapsto> StringArray (calculateInitialTurnOrder rs)),
                     next_ref = Suc (Suc ?c)\<rparr>)"
    if "cells h rollsRef = Some (RollArray rs)" for rollsRef rs
    using that
    by (simp add: calculateInitialTurnOrder_heap_def calculateInitialTurnOrder_def alloc_def Let_def)
  have 3: "\<exists>r2 h2. calculateInitialTurnOrder_heap h rollsRef = Some (r2, h2) \<and>
                 cells h2 r2 = Some (StringArray (calculateInitialTurnOrder rs)) \<and>
                 (\<forall>a\<in>dom (cells h). cells h2 a = cells h a)"
    if "cells h rollsRef = Some (RollArray rs)" for rollsRef rs
    unfolding 2[OF that] using fresh by auto
  show ?thesis
    apply (rule exI[of _ ?sorted], rule exI[of _ "Suc ?c"])
    apply (rule exI[of _ "\<lparr>cells = (cells h)(?c \<mapsto> PlayerArray ?sorted,
                                      Suc ?c \<mapsto> StringArray (map player_id ?sorted)),
                     next_ref = Suc (Suc ?c)\<rparr>"])
    using 1 3 fresh calculateTurnOrder_sorted[OF assms(1), of ps] mset_js_sort[of _ ps]
    by (auto simp: calculateTurnOrder_def)
qed

lemma exampleScored_order:
  "calculateTurnOrder exampleScored [''p1'', ''p2''] = [''p4'', ''p1'', ''p2'', ''p3'']"
  by (simp add: calculateTurnOrder_def js_sort_def exampleScored_def examplePlayer_def
      turnOrderCompare_def originalOrderMap_def originalIndex_def sign_rat_def sign_int_def
      upt_rec)

theorem calculateTurnOrder_sorts_a_copy_witness:
  "\<exists>r h1. calculateTurnOrder_heap exampleHeap 0 1 = Some (r, h1) \<and>
     cells h1 r = Some (StringArray [''p4'', ''p1'', ''p2'', ''p3'']) \<and>
     cells h1 0 = Some (PlayerArray exampleScored) \<and>
     cells h1 1 = Some (StringArray [''p1'', ''p2''])"
proof -
  have "wf_heap exampleHeap" by (simp add: wf_heap_def exampleHeap_def)
  from calculateTurnOrder_sorts_a_copy
    [of "[''p1'', ''p2'']" exampleHeap 0 exampleScored 1, OF _ this]
  obtain r h1 where "calculateTurnOrder_heap exampleHeap 0 1 = Some (r, h1)"
    and "cells h1 r = Some (StringArray (calculateTurnOrder exampleScored [''p1'', ''p2'']))"
    and "\<forall>a\<in>dom (cells exampleHeap). cells h1 a = cells exampleHeap a"
    by (auto simp: exampleHeap_def)
  then show ?thesis
    by (auto simp: exampleScored_order exampleHeap_def)
qed

subsection \<open>Scores only grow\<close>
















subsection \<open>Every action lets the cumulative scores grow\<close>




























end
